theory Spec2Isabelle
  imports Main "HOL-Library.Word" "HOL-Library.Signed_Division"
begin

unbundle bit_operations_syntax

section \<open>Machine types and result codes\<close>

text \<open>
  The sources are the ARMv7 port (the trampoline is 32-bit ARM assembly: \<open>mov r0, sp\<close>,
  \<open>push {lr}\<close>, \<open>hvc #0\<close>), so \<open>unsigned long\<close>, \<open>unsigned int\<close> and \<open>int\<close> are
  32 bits wide. Arithmetic on words wraps around as the C arithmetic does.
\<close>

type_synonym u8 = "8 word"
type_synonym u32 = "32 word"
type_synonym u64 = "64 word"
type_synonym ulong = "32 word"

text \<open>
  An \<open>int\<close> result is \<open>0\<close> on success and a negated \<open>errno\<close> value otherwise:
  \<open>Inr ()\<close> is \<open>0\<close>, \<open>Inl E2BIG\<close> is \<open>-E2BIG\<close>, \<open>Inl ENOMEM\<close> is \<open>-ENOMEM\<close>.
\<close>

datatype errno = E2BIG | ENOMEM

type_synonym retcode = "errno + unit"

datatype paging_coherent = PAGING_NON_COHERENT | PAGING_COHERENT

section \<open>What the sources use and do not define\<close>

text \<open>
  The headers (\<open>asm/paging.h\<close>, \<open>asm/sysregs.h\<close>, \<open>jailhouse/paging.h\<close>,
  \<open>jailhouse/cell-config.h\<close>) are not part of the sources at hand. Every constant they
  would supply is a field of one of the records below, which the functions take as
  arguments; nothing is assumed about a value unless a theorem says so in a hypothesis.
\<close>

record paging_consts =
  PAGE_SIZE :: ulong
  PAGE_MASK :: ulong
  PAGE_DEFAULT_FLAGS :: ulong
  PAGE_PRESENT_FLAGS :: ulong
  INVALID_PHYS_ADDR :: ulong
  JAILHOUSE_BASE :: ulong
  TTBR_MASK :: u64

record el2_consts =
  SCTLR_M_BIT :: u32
  SCTLR_I_BIT :: u32
  SCTLR_C_BIT :: u32
  DEFAULT_HMAIR0 :: u32
  DEFAULT_HMAIR1 :: u32
  T0SZ :: u32
  TCR_RGN_WB_WA :: u32
  TCR_IRGN0_SHIFT :: nat
  TCR_ORGN0_SHIFT :: nat
  TCR_INNER_SHAREABLE :: u32
  TCR_SH0_SHIFT :: nat
  HTCR_RES1 :: u32
  PAR_PA_MASK :: u64
  PAR_F_BIT :: u64

record s2_consts =
  VTTBR_VMID_SHIFT :: nat
  VTCR_CELL :: u32
  ARM_CELL_ROOT_PT_SZ :: nat
  PTE_FLAG_VALID :: u32
  PTE_ACCESS_FLAG :: u32
  S2_PTE_ACCESS_RO :: u32
  S2_PTE_ACCESS_WO :: u32
  S2_PTE_FLAG_DEVICE :: u32
  S2_PTE_FLAG_NORMAL :: u32
  S2_PAGE_ACCESS_XN :: u32
  cell_paging :: ulong

record mem_consts =
  JAILHOUSE_MEM_READ :: u64
  JAILHOUSE_MEM_WRITE :: u64
  JAILHOUSE_MEM_EXECUTE :: u64
  JAILHOUSE_MEM_IO :: u64
  JAILHOUSE_MEM_COMM_REGION :: u64

text \<open>
  \<open>struct paging_structures\<close>: the pointer \<open>root_paging\<close> to the paging-level descriptors
  and the pointer \<open>root_table\<close> to the root page table.
\<close>

record paging_structures =
  root_paging :: ulong
  root_table :: ulong

text \<open>
  The paging primitives of the core (\<open>paging_create\<close>, \<open>paging_destroy\<close>,
  \<open>paging_virt2phys\<close>, \<open>paging_hvirt2phys\<close>) are collaborators that the sources call and
  do not define. They are taken as the fields of a record of operations over a type
  \<open>'m\<close> of the memory that holds the page tables: a primitive that updates a table in
  place returns the updated memory with its result code. The argument order is the one
  of the calls: \<open>paging_create m pg_structs phys size virt flags coherent\<close>,
  \<open>paging_destroy m pg_structs virt size coherent\<close>,
  \<open>paging_virt2phys m pg_structs virt flags\<close>. Their address and flag arguments are
  \<open>unsigned long\<close>, the type of the values mmu\_hyp.c passes and of the arguments and
  result of \<open>arch_paging_gphys2phys\<close>.
\<close>

record 'm paging_ops =
  paging_create ::
    "'m \<Rightarrow> paging_structures \<Rightarrow> ulong \<Rightarrow> ulong \<Rightarrow> ulong \<Rightarrow> ulong \<Rightarrow> paging_coherent
      \<Rightarrow> retcode \<times> 'm"
  paging_destroy ::
    "'m \<Rightarrow> paging_structures \<Rightarrow> ulong \<Rightarrow> ulong \<Rightarrow> paging_coherent \<Rightarrow> retcode \<times> 'm"
  paging_virt2phys :: "'m \<Rightarrow> paging_structures \<Rightarrow> ulong \<Rightarrow> ulong \<Rightarrow> ulong"
  paging_hvirt2phys :: "ulong \<Rightarrow> ulong"

text \<open>
  The page allocator, likewise: \<open>page_alloc_aligned pool num\<close> returns a pointer
  (\<open>0\<close> is \<open>NULL\<close>) and the pool after the call, \<open>page_free pool page num\<close> the pool
  after the call.
\<close>

record 'pool pool_ops =
  page_alloc_aligned :: "'pool \<Rightarrow> nat \<Rightarrow> ulong \<times> 'pool"
  page_free :: "'pool \<Rightarrow> ulong \<Rightarrow> nat \<Rightarrow> 'pool"

section \<open>The exception-level transition engine (mmu\_hyp.c)\<close>

subsection \<open>State\<close>

text \<open>One element of the static array \<open>id_maps[2]\<close>.\<close>

record id_map =
  addr :: ulong
  flags :: ulong
  conflict :: bool

definition ARRAY_SIZE_id_maps :: nat where
  "ARRAY_SIZE_id_maps = 2"

datatype sysreg =
  SCTLR_EL2 | SCTLR_EL1 | HMAIR0 | HMAIR1 | TTBR0_EL2 | TCR_EL2 | TLBIALLH | HVBAR
  | ATS1HR | PAR_EL1 | VTTBR_EL2 | VTCR_EL2

text \<open>
  Calls to collaborators and operations on the hardware are effects; each one is logged,
  in program order, in the \<open>trace\<close> of the state. \<open>EvPagingCreate phys size virt flags c\<close>
  and \<open>EvPagingDestroy virt size c\<close> are calls on \<open>hv_paging_structs\<close>.
\<close>

datatype event =
  EvPagingCreate ulong ulong ulong ulong paging_coherent
  | EvPagingDestroy ulong ulong paging_coherent
  | EvHvcGetVectors
  | EvDcachesFlushClean
  | EvCpuSwitchEl2 ulong
  | EvWriteSysreg sysreg u64
  | EvIsb
  | EvDsbNsh
  | EvPhys2Virt
  | EvVmreturn ulong
  | EvTlbFlushGuest u8

text \<open>
  The file's static variables \<open>id_maps\<close> and \<open>saved_vectors\<close>, the hypervisor's own
  paging structures \<open>hv_paging_structs\<close>, the memory \<open>table_mem\<close> holding the page tables,
  and the trace. The array is a function of the index; only the indices below
  \<open>ARRAY_SIZE_id_maps\<close> are ever read or written.
\<close>

record 'm hyp_state =
  id_maps :: "nat \<Rightarrow> id_map"
  saved_vectors :: ulong
  hv_paging_structs :: paging_structures
  table_mem :: 'm
  trace :: "event list"

text \<open>The addresses of the linker symbols the file declares \<open>extern\<close>.\<close>

record hyp_image =
  bootstrap_vectors :: ulong
  hyp_vectors :: ulong
  trampoline_start :: ulong
  trampoline_end :: ulong

text \<open>
  A \<open>struct per_cpu *\<close>: the pointer itself, the address of its \<open>stack\<close> array and the
  address \<open>guest_regs(cpu_data)\<close> of its saved guest registers.
\<close>

record per_cpu =
  cpu_data_ptr :: ulong
  stack :: ulong
  guest_regs :: ulong

text \<open>
  What the hardware of the calling core answers during one call: the value \<open>hvc(-1)\<close>
  returns, the contents of \<open>SCTLR_EL2\<close> and \<open>SCTLR_EL1\<close> on entry, and the contents of
  \<open>PAR_EL1\<close> after an address translation of a virtual address was requested through
  \<open>ATS1HR\<close>.
\<close>

record cpu_env =
  hvc_vectors :: ulong
  sctlr_el2_in :: u32
  sctlr_el1_in :: u32
  par_after_ats1hr :: "ulong \<Rightarrow> u64"

definition log :: "event \<Rightarrow> 'm hyp_state \<Rightarrow> 'm hyp_state" where
  "log e s = s\<lparr>trace := trace s @ [e]\<rparr>"

subsection \<open>set\_id\_map\<close>

text \<open>
  \<open>static int set_id_map(int i, unsigned long address, unsigned long size)\<close>.
  The index is compared with \<open>ARRAY_SIZE(id_maps)\<close>, which has an unsigned type, so
  \<open>i\<close> is converted to unsigned: a negative index is a large one. \<open>i\<close> is the 32-bit
  pattern of the \<open>int\<close>, and \<open>\<le>\<close> on words is the unsigned order. The \<open>printk\<close> of the
  error branch writes to the console only.
\<close>

definition set_id_map ::
  "paging_consts \<Rightarrow> u32 \<Rightarrow> ulong \<Rightarrow> ulong \<Rightarrow> 'm hyp_state \<Rightarrow> retcode \<times> 'm hyp_state" where
  "set_id_map K i address sz s =
    (if of_nat ARRAY_SIZE_id_maps \<le> i then (Inl ENOMEM, s)
     else if (address AND PAGE_MASK K) \<noteq> ((address + sz - 1) AND PAGE_MASK K)
       then (Inl E2BIG, s)
     else (Inr (),
       s\<lparr>id_maps := (id_maps s)(unat i :=
           (id_maps s (unat i))\<lparr>addr := address, conflict := False,
              flags := PAGE_DEFAULT_FLAGS K\<rparr>)\<rparr>))"

subsection \<open>create\_id\_maps and destroy\_id\_maps\<close>

text \<open>
  A call \<open>paging_create(&hv_paging_structs, ...)\<close> or
  \<open>paging_destroy(&hv_paging_structs, ...)\<close> whose result the caller drops: the memory is
  updated and the call is logged.
\<close>

definition hv_paging_create ::
  "'m paging_ops \<Rightarrow> ulong \<Rightarrow> ulong \<Rightarrow> ulong \<Rightarrow> ulong \<Rightarrow> paging_coherent \<Rightarrow> 'm hyp_state
    \<Rightarrow> 'm hyp_state" where
  "hv_paging_create pg phys sz virt fl c s =
    log (EvPagingCreate phys sz virt fl c)
      (s\<lparr>table_mem := snd (paging_create pg (table_mem s) (hv_paging_structs s) phys sz virt fl c)\<rparr>)"

definition hv_paging_destroy ::
  "'m paging_ops \<Rightarrow> ulong \<Rightarrow> ulong \<Rightarrow> paging_coherent \<Rightarrow> 'm hyp_state \<Rightarrow> 'm hyp_state" where
  "hv_paging_destroy pg virt sz c s =
    log (EvPagingDestroy virt sz c)
      (s\<lparr>table_mem := snd (paging_destroy pg (table_mem s) (hv_paging_structs s) virt sz c)\<rparr>)"

text \<open>The body of the loop of \<open>create_id_maps\<close> for the index \<open>i\<close>.\<close>

definition create_id_maps_body ::
  "'m paging_ops \<Rightarrow> paging_consts \<Rightarrow> nat \<Rightarrow> 'm hyp_state \<Rightarrow> 'm hyp_state" where
  "create_id_maps_body pg K i s =
    (let c = (paging_virt2phys pg (table_mem s) (hv_paging_structs s) (addr (id_maps s i))
                (PAGE_PRESENT_FLAGS K) \<noteq> INVALID_PHYS_ADDR K);
         s1 = (if c then s
               else hv_paging_create pg (addr (id_maps s i)) (PAGE_SIZE K)
                      (addr (id_maps s i)) (flags (id_maps s i)) PAGING_NON_COHERENT s)
     in s1\<lparr>id_maps := (id_maps s1)(i := (id_maps s1 i)\<lparr>conflict := c\<rparr>)\<rparr>)"

text \<open>\<open>for (i = 0; i < ARRAY_SIZE(id_maps); i++)\<close>.\<close>

definition create_id_maps :: "'m paging_ops \<Rightarrow> paging_consts \<Rightarrow> 'm hyp_state \<Rightarrow> 'm hyp_state" where
  "create_id_maps pg K s = fold (create_id_maps_body pg K) [0..<ARRAY_SIZE_id_maps] s"

definition destroy_id_maps_body ::
  "'m paging_ops \<Rightarrow> paging_consts \<Rightarrow> nat \<Rightarrow> 'm hyp_state \<Rightarrow> 'm hyp_state" where
  "destroy_id_maps_body pg K i s =
    (if conflict (id_maps s i) then s
     else hv_paging_destroy pg (addr (id_maps s i)) (PAGE_SIZE K) PAGING_NON_COHERENT s)"

definition destroy_id_maps :: "'m paging_ops \<Rightarrow> paging_consts \<Rightarrow> 'm hyp_state \<Rightarrow> 'm hyp_state" where
  "destroy_id_maps pg K s = fold (destroy_id_maps_body pg K) [0..<ARRAY_SIZE_id_maps] s"

subsection \<open>The routines that run on physical addresses\<close>

text \<open>
  \<open>cpu_switch_el2\<close> is a naked assembly routine (two \<open>hvc #0\<close> around the translation
  of \<open>sp\<close> and \<open>lr\<close>); it is one logged step carrying \<open>phys_bootstrap\<close>.
\<close>

definition cpu_switch_el2 :: "ulong \<Rightarrow> 'm hyp_state \<Rightarrow> 'm hyp_state" where
  "cpu_switch_el2 phys_bootstrap s = log (EvCpuSwitchEl2 phys_bootstrap) s"

text \<open>
  \<open>setup_mmu_el2(cpu_data, phys2virt, ttbr)\<close>: returns at once when the MMU is enabled
  already; otherwise programs \<open>HMAIR0\<close>, \<open>HMAIR1\<close>, \<open>TTBR0_EL2\<close> and \<open>TCR_EL2\<close>, flushes
  the hypervisor TLB, enables stage-1 translation with the cache bits of \<open>SCTLR_EL1\<close>
  and returns through \<open>cpu_switch_phys2virt\<close>. \<open>SCTLR_EL2\<close> is not written between its
  two reads, so both read \<open>sctlr_el2_in\<close>.
\<close>

definition setup_mmu_el2 :: "el2_consts \<Rightarrow> cpu_env \<Rightarrow> u64 \<Rightarrow> 'm hyp_state \<Rightarrow> 'm hyp_state" where
  "setup_mmu_el2 R env ttbr s =
    (let tcr = T0SZ R
           OR push_bit (TCR_IRGN0_SHIFT R) (TCR_RGN_WB_WA R)
           OR push_bit (TCR_ORGN0_SHIFT R) (TCR_RGN_WB_WA R)
           OR push_bit (TCR_SH0_SHIFT R) (TCR_INNER_SHAREABLE R)
           OR HTCR_RES1 R;
         sctlr_el1 = sctlr_el1_in env AND (SCTLR_I_BIT R OR SCTLR_C_BIT R);
         sctlr_el2 = sctlr_el2_in env OR (SCTLR_M_BIT R OR sctlr_el1)
     in if sctlr_el2_in env AND SCTLR_M_BIT R \<noteq> 0 then s
        else fold log
          [EvIsb,
           EvWriteSysreg HMAIR0 (ucast (DEFAULT_HMAIR0 R)),
           EvWriteSysreg HMAIR1 (ucast (DEFAULT_HMAIR1 R)),
           EvWriteSysreg TTBR0_EL2 ttbr,
           EvWriteSysreg TCR_EL2 (ucast tcr),
           EvWriteSysreg TLBIALLH 1,
           EvDsbNsh,
           EvWriteSysreg SCTLR_EL2 (ucast sctlr_el2),
           EvIsb,
           EvPhys2Virt] s)"

text \<open>
  \<open>shutdown_el2(regs, vectors)\<close>: disables stage-1 translation and the caches, clears
  the MMU registers, writes \<open>vectors\<close> to \<open>HVBAR\<close> and leaves through \<open>vmreturn(regs)\<close>.
\<close>

definition shutdown_el2 :: "el2_consts \<Rightarrow> cpu_env \<Rightarrow> ulong \<Rightarrow> ulong \<Rightarrow> 'm hyp_state \<Rightarrow> 'm hyp_state" where
  "shutdown_el2 R env regs vectors s =
    fold log
      [EvWriteSysreg SCTLR_EL2
         (ucast (sctlr_el2_in env AND NOT (SCTLR_M_BIT R OR SCTLR_C_BIT R OR SCTLR_I_BIT R))),
       EvIsb,
       EvWriteSysreg HMAIR0 0,
       EvWriteSysreg HMAIR1 0,
       EvWriteSysreg TTBR0_EL2 0,
       EvWriteSysreg TCR_EL2 0,
       EvIsb,
       EvWriteSysreg HVBAR (ucast vectors),
       EvVmreturn regs] s"

text \<open>
  \<open>check_mmu_map(virt_addr, phys_addr)\<close>: asks the hardware to translate \<open>virt_addr\<close>
  and compares. On a mismatch the function never returns (\<open>while (1);\<close>): the first
  component of the result is \<open>False\<close> then, and \<open>True\<close> when the function returns.
\<close>

definition check_mmu_map ::
  "el2_consts \<Rightarrow> cpu_env \<Rightarrow> ulong \<Rightarrow> ulong \<Rightarrow> 'm hyp_state \<Rightarrow> bool \<times> 'm hyp_state" where
  "check_mmu_map R env virt_addr phys_addr s =
    (let s1 = log EvIsb (log (EvWriteSysreg ATS1HR (ucast virt_addr)) s);
         par = par_after_ats1hr env virt_addr;
         phys_base = (ucast (par AND PAR_PA_MASK R) :: ulong)
     in (\<not> (par AND PAR_F_BIT R \<noteq> 0 \<or> phys_base \<noteq> phys_addr), s1))"

subsection \<open>switch\_exception\_level\<close>

text \<open>
  \<open>&trampoline_end - &trampoline_start\<close> subtracts two pointers to \<open>unsigned long\<close>:
  the signed difference of the addresses divided by \<open>sizeof(unsigned long) = 4\<close>.
\<close>

definition trampoline_size :: "hyp_image \<Rightarrow> ulong" where
  "trampoline_size img =
     word_of_int (sint (trampoline_end img - trampoline_start img) sdiv 4)"

text \<open>
  \<open>int switch_exception_level(struct per_cpu *cpu_data)\<close>. The result is \<open>Some r\<close> when
  the function returns \<open>r\<close> and \<open>None\<close> when it never returns (the core spins in
  \<open>check_mmu_map\<close>); the state is the one reached in either case.
\<close>

definition switch_exception_level ::
  "'m paging_ops \<Rightarrow> paging_consts \<Rightarrow> el2_consts \<Rightarrow> hyp_image \<Rightarrow> cpu_env \<Rightarrow> per_cpu
    \<Rightarrow> 'm hyp_state \<Rightarrow> retcode option \<times> 'm hyp_state" where
  "switch_exception_level pg K R img env cpu_data s =
    (let phys_bootstrap = paging_hvirt2phys pg (bootstrap_vectors img);
         phys_cpu_data = paging_hvirt2phys pg (cpu_data_ptr cpu_data);
         trampoline_phys = paging_hvirt2phys pg (trampoline_start img);
         stack_virt = stack cpu_data;
         stack_phys = paging_hvirt2phys pg stack_virt;
         jailhouse_base_phys =
           paging_virt2phys pg (table_mem s) (hv_paging_structs s) (JAILHOUSE_BASE K)
             (PAGE_DEFAULT_FLAGS K);
         s1 = (if saved_vectors s = 0
               then (log EvHvcGetVectors s)\<lparr>saved_vectors := hvc_vectors env\<rparr>
               else s);
         ttbr_el2 = ucast (paging_hvirt2phys pg (root_table (hv_paging_structs s1)))
                      AND TTBR_MASK K;
         (r0, s2) = set_id_map K 0 trampoline_phys (trampoline_size img) s1
     in if r0 \<noteq> Inr () then (Some (Inl E2BIG), s2)
        else
          (let (r1, s3) = set_id_map K 1 stack_phys (PAGE_SIZE K) s2
           in if r1 \<noteq> Inr () then (Some (Inl E2BIG), s3)
              else
                (let s4 = create_id_maps pg K s3;
                     s5 = log EvDcachesFlushClean s4;
                     s6 = cpu_switch_el2 phys_bootstrap s5;
                     s7 = setup_mmu_el2 R env ttbr_el2 s6;
                     (ok, s8) = check_mmu_map R env (JAILHOUSE_BASE K) jailhouse_base_phys s7
                 in if \<not> ok then (None, s8)
                    else
                      (let s9 = log (EvWriteSysreg HVBAR (ucast (hyp_vectors img))) s8;
                           s10 = destroy_id_maps pg K s9
                       in (Some (Inr ()), s10)))))"

subsection \<open>arch\_shutdown\_mmu\<close>

text \<open>
  \<open>void arch_shutdown_mmu(struct per_cpu *cpu_data)\<close> never returns; the result is the
  state in which \<open>vmreturn\<close> leaves. The spin lock around the two \<open>paging_create\<close>
  calls orders concurrent callers and has no effect on a single one.
\<close>

definition arch_shutdown_mmu ::
  "'m paging_ops \<Rightarrow> paging_consts \<Rightarrow> el2_consts \<Rightarrow> hyp_image \<Rightarrow> cpu_env \<Rightarrow> per_cpu
    \<Rightarrow> 'm hyp_state \<Rightarrow> 'm hyp_state" where
  "arch_shutdown_mmu pg K R img env cpu_data s =
    (let stack_phys = paging_hvirt2phys pg (stack cpu_data);
         trampoline_phys = paging_hvirt2phys pg (trampoline_start img);
         regs_phys = paging_hvirt2phys pg (guest_regs cpu_data);
         s1 = hv_paging_create pg stack_phys (PAGE_SIZE K) stack_phys (PAGE_DEFAULT_FLAGS K)
                PAGING_NON_COHERENT s;
         s2 = hv_paging_create pg trampoline_phys (PAGE_SIZE K) trampoline_phys
                (PAGE_DEFAULT_FLAGS K) PAGING_NON_COHERENT s1;
         s3 = log EvDcachesFlushClean s2
     in shutdown_el2 R env regs_phys (saved_vectors s3) s3)"

subsection \<open>Notions the properties of the transition engine are stated with\<close>

text \<open>
  The relation between the two page constants that the page check of \<open>set_id_map\<close>
  relies on: pages of \<open>2 ^ n\<close> bytes, and a mask that clears the offset in the page.
\<close>

definition page_geometry :: "paging_consts \<Rightarrow> nat \<Rightarrow> bool" where
  "page_geometry K n =
     (n < 32 \<and> PAGE_SIZE K = 2 ^ n \<and> PAGE_MASK K = NOT (PAGE_SIZE K - 1))"

text \<open>
  The specification's condition, in its own words: the byte range
  \<open>[address, address + size - 1]\<close> crosses a page boundary, that is, it "spans more than
  one page". The bytes are natural numbers here and nothing wraps around; an empty
  range spans no page at all.
\<close>

definition crosses_page_boundary :: "nat \<Rightarrow> nat \<Rightarrow> nat \<Rightarrow> bool" where
  "crosses_page_boundary psz a sz = (0 < sz \<and> a div psz \<noteq> (a + sz - 1) div psz)"

text \<open>
  Whether the address of slot \<open>i\<close> translates in the hypervisor's page table (the test
  of \<open>create_id_maps\<close>), and the calls of the paging primitives that concern slot \<open>i\<close>.
\<close>

definition slot_mapped :: "'m paging_ops \<Rightarrow> paging_consts \<Rightarrow> 'm hyp_state \<Rightarrow> nat \<Rightarrow> bool" where
  "slot_mapped pg K s i =
     (paging_virt2phys pg (table_mem s) (hv_paging_structs s) (addr (id_maps s i))
        (PAGE_PRESENT_FLAGS K) \<noteq> INVALID_PHYS_ADDR K)"

definition slot_create_call :: "paging_consts \<Rightarrow> 'm hyp_state \<Rightarrow> nat \<Rightarrow> event" where
  "slot_create_call K s i =
     EvPagingCreate (addr (id_maps s i)) (PAGE_SIZE K) (addr (id_maps s i))
       (flags (id_maps s i)) PAGING_NON_COHERENT"

definition slot_destroy_call :: "paging_consts \<Rightarrow> 'm hyp_state \<Rightarrow> nat \<Rightarrow> event" where
  "slot_destroy_call K s i =
     EvPagingDestroy (addr (id_maps s i)) (PAGE_SIZE K) PAGING_NON_COHERENT"

text \<open>The number of \<open>hvc(-1)\<close> queries issued so far.\<close>

definition hvc_queries :: "'m hyp_state \<Rightarrow> nat" where
  "hvc_queries s = length (filter (\<lambda>e. e = EvHvcGetVectors) (trace s))"

text \<open>
  A sequence of calls of \<open>switch_exception_level\<close>, one after the other, each with the
  answers of the hardware of its core and its \<open>cpu_data\<close>. A call that never returns
  leaves its core spinning; the calls on the other cores go on from the state it reached.
\<close>

definition switch_calls ::
  "'m paging_ops \<Rightarrow> paging_consts \<Rightarrow> el2_consts \<Rightarrow> hyp_image \<Rightarrow> (cpu_env \<times> per_cpu) list
    \<Rightarrow> 'm hyp_state \<Rightarrow> 'm hyp_state" where
  "switch_calls pg K R img calls s =
     fold (\<lambda>(env, cpu_data) s'. snd (switch_exception_level pg K R img env cpu_data s'))
       calls s"

section \<open>The stage-2 translation manager (mmu\_cell.c)\<close>

subsection \<open>Data\<close>

text \<open>
  \<open>struct jailhouse_memory\<close>, as the configuration (configs/bananapi.c) fills it and as
  \<open>arch_map_memory_region\<close> reads it into a \<open>u64\<close>. The C fields \<open>size\<close> and \<open>flags\<close>
  are \<open>mem_size\<close> and \<open>mem_flags\<close> here.
\<close>

record jailhouse_memory =
  phys_start :: u64
  virt_start :: u64
  mem_size :: u64
  mem_flags :: u64

text \<open>\<open>struct cpu_set\<close>: the largest CPU number and the bitmap of the assigned CPUs.\<close>

record cpu_set =
  max_cpu_id :: nat
  bitmap :: "nat \<Rightarrow> bool"

text \<open>
  The fields of \<open>struct cell\<close> that the sources read or write: \<open>id\<close> (here \<open>cell_id\<close>),
  the address \<open>&cell->comm_page\<close>, \<open>arch.mm\<close>, \<open>cpu_set\<close> and \<open>config->vpci_irq_base\<close>.
\<close>

record cell =
  cell_id :: u32
  comm_page :: ulong
  arch_mm :: paging_structures
  cpu_set :: cpu_set
  vpci_irq_base :: u32

subsection \<open>arch\_map\_memory\_region and arch\_unmap\_memory\_region\<close>

text \<open>
  The arguments \<open>(phys, size, virt, flags)\<close> that \<open>arch_map_memory_region\<close> computes for
  its call of \<open>paging_create\<close>, statement by statement. The region's fields are \<open>u64\<close>
  and the primitive takes \<open>unsigned long\<close>: the conversion at the call is \<open>ucast\<close>.
  The lines that would add \<open>S2_PAGE_ACCESS_XN\<close> for a region without
  \<open>JAILHOUSE_MEM_EXECUTE\<close> are commented out in the source and so are absent here.
\<close>

definition map_region_args ::
  "'m paging_ops \<Rightarrow> mem_consts \<Rightarrow> s2_consts \<Rightarrow> cell \<Rightarrow> jailhouse_memory
    \<Rightarrow> ulong \<times> ulong \<times> ulong \<times> u32" where
  "map_region_args pg M C cl mem =
    (let phys_start0 = phys_start mem;
         flags0 = PTE_FLAG_VALID C OR PTE_ACCESS_FLAG C;
         flags1 = (if mem_flags mem AND JAILHOUSE_MEM_READ M \<noteq> 0
                   then flags0 OR S2_PTE_ACCESS_RO C else flags0);
         flags2 = (if mem_flags mem AND JAILHOUSE_MEM_WRITE M \<noteq> 0
                   then flags1 OR S2_PTE_ACCESS_WO C else flags1);
         flags3 = (if mem_flags mem AND JAILHOUSE_MEM_IO M \<noteq> 0
                   then flags2 OR S2_PTE_FLAG_DEVICE C
                   else flags2 OR S2_PTE_FLAG_NORMAL C);
         phys_start1 = (if mem_flags mem AND JAILHOUSE_MEM_COMM_REGION M \<noteq> 0
                        then ucast (paging_hvirt2phys pg (comm_page cl))
                        else phys_start0)
     in (ucast phys_start1, ucast (mem_size mem), ucast (virt_start mem), flags3))"

definition arch_map_memory_region ::
  "'m paging_ops \<Rightarrow> mem_consts \<Rightarrow> s2_consts \<Rightarrow> 'm \<Rightarrow> cell \<Rightarrow> jailhouse_memory \<Rightarrow> retcode \<times> 'm" where
  "arch_map_memory_region pg M C m cl mem =
    (let (phys, sz, virt, fl) = map_region_args pg M C cl mem
     in paging_create pg m (arch_mm cl) phys sz virt fl PAGING_COHERENT)"

definition arch_unmap_memory_region ::
  "'m paging_ops \<Rightarrow> 'm \<Rightarrow> cell \<Rightarrow> jailhouse_memory \<Rightarrow> retcode \<times> 'm" where
  "arch_unmap_memory_region pg m cl mem =
    paging_destroy pg m (arch_mm cl) (ucast (virt_start mem)) (ucast (mem_size mem))
      PAGING_COHERENT"

text \<open>
  \<open>arch_paging_gphys2phys(cpu_data, gphys, flags)\<close>; \<open>cl\<close> is \<open>cpu_data->cell\<close>.
\<close>

definition arch_paging_gphys2phys :: "'m paging_ops \<Rightarrow> 'm \<Rightarrow> cell \<Rightarrow> ulong \<Rightarrow> ulong \<Rightarrow> ulong" where
  "arch_paging_gphys2phys pg m cl gphys fl = paging_virt2phys pg m (arch_mm cl) gphys fl"

subsection \<open>arch\_mmu\_cell\_init and arch\_mmu\_cell\_destroy\<close>

text \<open>
  \<open>int arch_mmu_cell_init(struct cell *cell)\<close> on the global \<open>mem_pool\<close>: the result
  code, the cell and the pool after the call. \<open>trace_error\<close> prints and yields its
  argument.
\<close>

definition arch_mmu_cell_init ::
  "'pool pool_ops \<Rightarrow> s2_consts \<Rightarrow> cell \<Rightarrow> 'pool \<Rightarrow> retcode \<times> cell \<times> 'pool" where
  "arch_mmu_cell_init al C cl pool =
    (if 0xff < cell_id cl then (Inl E2BIG, cl, pool)
     else
       (let cl1 = cl\<lparr>arch_mm := (arch_mm cl)\<lparr>root_paging := cell_paging C\<rparr>\<rparr>;
            (page, pool') = page_alloc_aligned al pool (ARM_CELL_ROOT_PT_SZ C);
            cl2 = cl1\<lparr>arch_mm := (arch_mm cl1)\<lparr>root_table := page\<rparr>\<rparr>
        in if root_table (arch_mm cl2) = 0 then (Inl ENOMEM, cl2, pool')
           else (Inr (), cl2, pool')))"

definition arch_mmu_cell_destroy :: "'pool pool_ops \<Rightarrow> s2_consts \<Rightarrow> cell \<Rightarrow> 'pool \<Rightarrow> 'pool" where
  "arch_mmu_cell_destroy al C cl pool =
    page_free al pool (root_table (arch_mm cl)) (ARM_CELL_ROOT_PT_SZ C)"

subsection \<open>arm\_mmu\_cpu\_cell\_init and arm\_cpu\_tlb\_flush\<close>

text \<open>
  The state of the calling core: the system registers as last written, the value of
  \<open>VTTBR_EL2\<close> that the translation hardware is known to use, and the trace of the
  hardware operations in program order.
\<close>

record core_state =
  sysregs :: "sysreg \<Rightarrow> u64"
  visible_vttbr :: u64
  core_trace :: "event list"

text \<open>
  Modelled from the spec: the macros \<open>arm_write_sysreg\<close>, \<open>isb\<close>, \<open>tlb_flush_guest\<close> and
  \<open>dsb\<close> come from headers that are not among the sources. A register write changes the
  register; the instruction-synchronization barrier makes the written partition
  identifier visible ("the identifier must be visible to hardware before any
  translation-cache flush targeting it", and in mmu\_cell.c "Ensure that the new VMID
  is present before flushing the caches"); the guest TLB flush invalidates the stage-1
  and stage-2 entries of the identifier that is visible when it executes (in
  mmu\_cell.c: "Invalidate all stage-1 and 2 TLB entries for the current VMID"), which
  the event records. The identifier is the 8-bit field of \<open>VTTBR_EL2\<close> at
  \<open>VTTBR_VMID_SHIFT\<close>.
\<close>

definition vmid_of :: "s2_consts \<Rightarrow> u64 \<Rightarrow> u8" where
  "vmid_of C v = ucast (drop_bit (VTTBR_VMID_SHIFT C) v)"

text \<open>
  Modelled from the spec: \<open>arm_write_sysreg(reg, val)\<close>, the write of a system register
  ("programs the current core's partition-identifier register and table-base register").
\<close>

definition arm_write_sysreg :: "sysreg \<Rightarrow> u64 \<Rightarrow> core_state \<Rightarrow> core_state" where
  "arm_write_sysreg r v c =
     c\<lparr>sysregs := (sysregs c)(r := v), core_trace := core_trace c @ [EvWriteSysreg r v]\<rparr>"

text \<open>
  Modelled from the spec: \<open>isb()\<close>, the instruction-synchronization barrier, after which
  the identifier written to \<open>VTTBR_EL2\<close> is the visible one.
\<close>

definition isb :: "core_state \<Rightarrow> core_state" where
  "isb c = c\<lparr>visible_vttbr := sysregs c VTTBR_EL2, core_trace := core_trace c @ [EvIsb]\<rparr>"

text \<open>
  Modelled from the spec: \<open>tlb_flush_guest()\<close>, the flush of this core's stage-1 and
  stage-2 TLB entries of the identifier that is visible when it executes.
\<close>

definition tlb_flush_guest :: "s2_consts \<Rightarrow> core_state \<Rightarrow> core_state" where
  "tlb_flush_guest C c =
     c\<lparr>core_trace := core_trace c @ [EvTlbFlushGuest (vmid_of C (visible_vttbr c))]\<rparr>"

text \<open>Modelled from the spec: \<open>dsb(nsh)\<close>, the data-synchronization barrier.\<close>

definition dsb_nsh :: "core_state \<Rightarrow> core_state" where
  "dsb_nsh c = c\<lparr>core_trace := core_trace c @ [EvDsbNsh]\<rparr>"

definition arm_cpu_tlb_flush :: "s2_consts \<Rightarrow> core_state \<Rightarrow> core_state" where
  "arm_cpu_tlb_flush C c = dsb_nsh (tlb_flush_guest C c)"

text \<open>
  \<open>void arm_mmu_cpu_cell_init(struct paging_structures *pg_structs)\<close>; \<open>this_cell\<close> is
  the cell \<open>this_cell()\<close> of the calling core.
\<close>

definition arm_mmu_cpu_cell_init ::
  "'m paging_ops \<Rightarrow> paging_consts \<Rightarrow> s2_consts \<Rightarrow> cell \<Rightarrow> paging_structures \<Rightarrow> core_state
    \<Rightarrow> core_state" where
  "arm_mmu_cpu_cell_init pg K C this_cell pg_structs c =
    (let cell_table = paging_hvirt2phys pg (root_table pg_structs);
         vttbr0 = (0 :: u64);
         vttbr1 = vttbr0 OR push_bit (VTTBR_VMID_SHIFT C) (ucast (cell_id this_cell));
         vttbr2 = vttbr1 OR (ucast cell_table AND TTBR_MASK K);
         c1 = arm_write_sysreg VTTBR_EL2 vttbr2 c;
         c2 = arm_write_sysreg VTCR_EL2 (ucast (VTCR_CELL C)) c1;
         c3 = isb c2
     in arm_cpu_tlb_flush C c3)"

subsection \<open>Notions the properties of the translation manager are stated with\<close>

text \<open>
  The translation of a region's attributes that the specification describes, as a
  function of the flags word alone: the valid and access bits always; the read-access bit
  for a readable region and the write-access bit for a writable one; the device memory
  type for an IO region and the normal memory type for any other.
\<close>

definition s2_flags :: "mem_consts \<Rightarrow> s2_consts \<Rightarrow> u64 \<Rightarrow> u32" where
  "s2_flags M C f =
     PTE_FLAG_VALID C OR PTE_ACCESS_FLAG C
     OR (if f AND JAILHOUSE_MEM_READ M \<noteq> 0 then S2_PTE_ACCESS_RO C else 0)
     OR (if f AND JAILHOUSE_MEM_WRITE M \<noteq> 0 then S2_PTE_ACCESS_WO C else 0)
     OR (if f AND JAILHOUSE_MEM_IO M \<noteq> 0 then S2_PTE_FLAG_DEVICE C else S2_PTE_FLAG_NORMAL C)"

text \<open>The value \<open>arm_mmu_cpu_cell_init\<close> writes to \<open>VTTBR_EL2\<close>.\<close>

definition cell_vttbr ::
  "'m paging_ops \<Rightarrow> paging_consts \<Rightarrow> s2_consts \<Rightarrow> cell \<Rightarrow> paging_structures \<Rightarrow> u64" where
  "cell_vttbr pg K C this_cell pg_structs =
     push_bit (VTTBR_VMID_SHIFT C) (ucast (cell_id this_cell))
     OR (ucast (paging_hvirt2phys pg (root_table pg_structs)) AND TTBR_MASK K)"

section \<open>The interrupt doorbell (ivshmem.c)\<close>

text \<open>
  The objects the doorbell reads, held in tables indexed by their pointers:
  \<open>struct ivshmem_endpoint\<close> with its configuration space \<open>cspace\<close> (an array of
  \<open>u32\<close>), its \<open>device\<close> and its \<open>remote\<close> endpoint; \<open>struct pci_device\<close> with its
  \<open>cell\<close>; the cells; and the interrupts marked pending so far, as pairs of a CPU
  number and an interrupt number in the order of the calls.
\<close>

record ivshmem_endpoint =
  cspace :: "nat \<Rightarrow> u32"
  device :: nat
  remote :: nat

record pci_device =
  cell :: nat

record ivshmem_world =
  endpoints :: "nat \<Rightarrow> ivshmem_endpoint"
  devices :: "nat \<Rightarrow> pci_device"
  cells :: "nat \<Rightarrow> cell"
  pending :: "(nat \<times> u32) list"

text \<open>
  Modelled from the spec: \<open>for_each_cpu\<close> is a macro of a header that is not among the
  sources. Left by a \<open>break\<close> in its first iteration it yields the "numerically-lowest
  assigned core" of the set; for a set with no CPU up to \<open>max_cpu_id\<close> the loop ends
  with the loop variable past \<open>max_cpu_id\<close>.
\<close>

definition first_cpu_of :: "cpu_set \<Rightarrow> nat" where
  "first_cpu_of cs =
     (case find (bitmap cs) [0..<Suc (max_cpu_id cs)] of
        Some c \<Rightarrow> c
      | None \<Rightarrow> Suc (max_cpu_id cs))"

text \<open>
  Modelled from the spec: \<open>irqchip_set_pending(per_cpu(cpu), irq)\<close> belongs to the
  interrupt controller driver, which is not among the sources; it "marks that interrupt
  pending on the target core's interrupt controller".
\<close>

definition irqchip_set_pending :: "nat \<Rightarrow> u32 \<Rightarrow> ivshmem_world \<Rightarrow> ivshmem_world" where
  "irqchip_set_pending cpu irq w = w\<lparr>pending := pending w @ [(cpu, irq)]\<rparr>"

text \<open>
  \<open>void arch_ivshmem_write_doorbell(struct ivshmem_endpoint *ive)\<close>. The source reads
  \<open>struct ivshmem_endpoint *remote = ive;//->remote;\<close>: the dereference of \<open>remote\<close>
  is commented out, so the variable named \<open>remote\<close> is \<open>ive\<close> itself. \<open>pin\<close> is a
  \<open>u8\<close>; \<open>PCI_CFG_INT\<close> is the byte offset of the interrupt line and pin registers.
\<close>

definition arch_ivshmem_write_doorbell :: "nat \<Rightarrow> nat \<Rightarrow> ivshmem_world \<Rightarrow> ivshmem_world" where
  "arch_ivshmem_write_doorbell PCI_CFG_INT ive w =
    (let remote_ep = ive;
         remote_cell = cells w (cell (devices w (device (endpoints w remote_ep))));
         pin = (ucast (drop_bit 8 (cspace (endpoints w remote_ep) (PCI_CFG_INT div 4))) :: u8);
         first_cpu = first_cpu_of (cpu_set remote_cell);
         spi_base = vpci_irq_base remote_cell
     in irqchip_set_pending first_cpu (spi_base + ucast pin - 1) w)"

section \<open>A page-map model of the collaborators\<close>

text \<open>
  Modelled from the spec: the paging primitive is an external collaborator
  ("\<open>create_mapping(table, phys, virt, size, flags, coherency_mode)\<close>,
  \<open>destroy_mapping(table, virt, size, coherency_mode)\<close>, \<open>virt_to_phys\<close>") whose
  table-walk internals are not among the sources. Here a root table maps the base of a
  page to the base of the physical page behind it and the flags of the entry. Creating a
  mapping enters every page of the range, destroying removes every page of the range, and
  a translation for the flags \<open>fl\<close> answers with the physical address when the page has an
  entry carrying all of \<open>fl\<close>, and with \<open>INVALID_PHYS_ADDR\<close> otherwise. The translation
  of hypervisor addresses subtracts a fixed offset.
\<close>

type_synonym page_map = "ulong \<Rightarrow> (ulong \<times> ulong) option"

type_synonym table_memory = "ulong \<Rightarrow> page_map"

text \<open>
  Modelled from the spec: the number of pages a mapping of \<open>size\<close> bytes covers (the
  size rounded up to whole pages).
\<close>

definition num_pages :: "paging_consts \<Rightarrow> ulong \<Rightarrow> nat" where
  "num_pages K sz = (unat sz + unat (PAGE_SIZE K) - 1) div unat (PAGE_SIZE K)"

text \<open>
  Modelled from the spec: entering, and removing, \<open>n\<close> consecutive pages from \<open>virt\<close> on.
\<close>

fun map_pages :: "nat \<Rightarrow> ulong \<Rightarrow> ulong \<Rightarrow> ulong \<Rightarrow> ulong \<Rightarrow> page_map \<Rightarrow> page_map" where
  "map_pages 0 psz virt phys fl t = t"
| "map_pages (Suc n) psz virt phys fl t =
     map_pages n psz (virt + psz) (phys + psz) fl (t(virt \<mapsto> (phys, fl)))"

fun unmap_pages :: "nat \<Rightarrow> ulong \<Rightarrow> ulong \<Rightarrow> page_map \<Rightarrow> page_map" where
  "unmap_pages 0 psz virt t = t"
| "unmap_pages (Suc n) psz virt t = unmap_pages n psz (virt + psz) (t(virt := None))"

text \<open>
  Modelled from the spec: \<open>paging_create\<close>, \<open>paging_destroy\<close> and \<open>paging_virt2phys\<close> on
  the page map of the root table of \<open>pg_structs\<close>.
\<close>

definition pm_paging_create ::
  "paging_consts \<Rightarrow> table_memory \<Rightarrow> paging_structures \<Rightarrow> ulong \<Rightarrow> ulong \<Rightarrow> ulong \<Rightarrow> ulong
    \<Rightarrow> paging_coherent \<Rightarrow> retcode \<times> table_memory" where
  "pm_paging_create K m pgs phys sz virt fl c =
    (Inr (), m(root_table pgs :=
       map_pages (num_pages K sz) (PAGE_SIZE K) (virt AND PAGE_MASK K) (phys AND PAGE_MASK K)
         fl (m (root_table pgs))))"

definition pm_paging_destroy ::
  "paging_consts \<Rightarrow> table_memory \<Rightarrow> paging_structures \<Rightarrow> ulong \<Rightarrow> ulong \<Rightarrow> paging_coherent
    \<Rightarrow> retcode \<times> table_memory" where
  "pm_paging_destroy K m pgs virt sz c =
    (Inr (), m(root_table pgs :=
       unmap_pages (num_pages K sz) (PAGE_SIZE K) (virt AND PAGE_MASK K) (m (root_table pgs))))"

definition pm_paging_virt2phys ::
  "paging_consts \<Rightarrow> table_memory \<Rightarrow> paging_structures \<Rightarrow> ulong \<Rightarrow> ulong \<Rightarrow> ulong" where
  "pm_paging_virt2phys K m pgs virt fl =
    (case m (root_table pgs) (virt AND PAGE_MASK K) of
       None \<Rightarrow> INVALID_PHYS_ADDR K
     | Some (p, f) \<Rightarrow>
         if f AND fl = fl then p OR (virt AND NOT (PAGE_MASK K)) else INVALID_PHYS_ADDR K)"

text \<open>
  Modelled from the spec: the paging primitives together; \<open>paging_hvirt2phys\<close> subtracts
  the offset \<open>off\<close> between hypervisor addresses and physical addresses.
\<close>

definition page_map_ops :: "paging_consts \<Rightarrow> ulong \<Rightarrow> table_memory paging_ops" where
  "page_map_ops K off =
    \<lparr>paging_create = pm_paging_create K,
     paging_destroy = pm_paging_destroy K,
     paging_virt2phys = pm_paging_virt2phys K,
     paging_hvirt2phys = (\<lambda>v. v - off)\<rparr>"

text \<open>
  Modelled from the spec: the "dedicated page pool" of the allocator, which is not
  among the sources, as the list of the free root-table blocks. An allocation takes the
  first block and "fails with out-of-memory if the pool is exhausted" (the pointer is
  \<open>NULL\<close>); freeing returns the block.
\<close>

definition free_list_pool :: "ulong list pool_ops" where
  "free_list_pool =
    \<lparr>page_alloc_aligned = (\<lambda>pool num. case pool of [] \<Rightarrow> (0, []) | b # bs \<Rightarrow> (b, bs)),
     page_free = (\<lambda>pool page num. page # pool)\<rparr>"

section \<open>An instance of the constants\<close>

text \<open>
  One choice of the constants, for running the definitions on concrete inputs: pages of
  4 KiB and the bit positions of the ARMv7 long-descriptor translation table format.
  \<open>S2_PAGE_ACCESS_XN\<close> is named only in the lines of \<open>arch_map_memory_region\<close> that are
  commented out; the instance gives it a bit of its own.
\<close>

definition lpae_paging_consts :: paging_consts where
  "lpae_paging_consts =
    \<lparr>PAGE_SIZE = 0x1000, PAGE_MASK = 0xFFFFF000, PAGE_DEFAULT_FLAGS = 0x741,
     PAGE_PRESENT_FLAGS = 0x1, INVALID_PHYS_ADDR = 0xFFFFFFFF, JAILHOUSE_BASE = 0xF0000000,
     TTBR_MASK = 0xFFFFFFFFFFE0\<rparr>"

definition lpae_el2_consts :: el2_consts where
  "lpae_el2_consts =
    \<lparr>SCTLR_M_BIT = 0x1, SCTLR_I_BIT = 0x1000, SCTLR_C_BIT = 0x4,
     DEFAULT_HMAIR0 = 0xFF440C04, DEFAULT_HMAIR1 = 0, T0SZ = 0, TCR_RGN_WB_WA = 1,
     TCR_IRGN0_SHIFT = 8, TCR_ORGN0_SHIFT = 10, TCR_INNER_SHAREABLE = 3, TCR_SH0_SHIFT = 12,
     HTCR_RES1 = 0x80800000, PAR_PA_MASK = 0xFFFFFFF000, PAR_F_BIT = 0x1\<rparr>"

definition lpae_s2_consts :: s2_consts where
  "lpae_s2_consts =
    \<lparr>VTTBR_VMID_SHIFT = 48, VTCR_CELL = 0x80003540, ARM_CELL_ROOT_PT_SZ = 1,
     PTE_FLAG_VALID = 0x1, PTE_ACCESS_FLAG = 0x400, S2_PTE_ACCESS_RO = 0x40,
     S2_PTE_ACCESS_WO = 0x80, S2_PTE_FLAG_DEVICE = 0x4, S2_PTE_FLAG_NORMAL = 0x3C,
     S2_PAGE_ACCESS_XN = 0x400000, cell_paging = 0xF0001000\<rparr>"

definition cell_config_consts :: mem_consts where
  "cell_config_consts =
    \<lparr>JAILHOUSE_MEM_READ = 0x1, JAILHOUSE_MEM_WRITE = 0x2, JAILHOUSE_MEM_EXECUTE = 0x4,
     JAILHOUSE_MEM_IO = 0x10, JAILHOUSE_MEM_COMM_REGION = 0x20\<rparr>"

section \<open>Concrete inputs\<close>

text \<open>
  The page-map model over the instance of the constants; hypervisor addresses lie
  \<open>0x74000000\<close> above the physical ones (\<open>JAILHOUSE_BASE\<close> over the
  \<open>hypervisor_memory.phys_start = 0x7c000000\<close> of configs/bananapi.c).
\<close>

definition example_ops :: "table_memory paging_ops" where
  "example_ops = page_map_ops lpae_paging_consts 0x74000000"

text \<open>
  The state before the first call of \<open>switch_exception_level\<close>: the static variables
  are zero, and the hypervisor's page table maps the page at \<open>JAILHOUSE_BASE\<close>.
\<close>

definition booted_state :: "table_memory hyp_state" where
  "booted_state =
    \<lparr>id_maps = (\<lambda>i. \<lparr>addr = 0, flags = 0, conflict = False\<rparr>),
     saved_vectors = 0,
     hv_paging_structs = \<lparr>root_paging = 0xF0002000, root_table = 0xF0003000\<rparr>,
     table_mem = (\<lambda>r. if r = 0xF0003000 then [0xF0000000 \<mapsto> (0x7C000000, 0x741)]
                       else Map.empty),
     trace = []\<rparr>"

text \<open>
  A state in which both slots are reserved (the trampoline page and the stack page of
  the inputs below) and the trampoline page is identity-mapped in the hypervisor's page
  table already.
\<close>

definition reserved_state :: "table_memory hyp_state" where
  "reserved_state =
    booted_state\<lparr>
      id_maps := (\<lambda>i. if i = 0 then \<lparr>addr = 0x7C005000, flags = 0x741, conflict = False\<rparr>
                      else \<lparr>addr = 0x7C010000, flags = 0x741, conflict = False\<rparr>),
      table_mem := (\<lambda>r. if r = 0xF0003000
                          then [0xF0000000 \<mapsto> (0x7C000000, 0x741),
                                0x7C005000 \<mapsto> (0x7C005000, 0x741)]
                          else Map.empty)\<rparr>"

definition example_image :: hyp_image where
  "example_image =
    \<lparr>bootstrap_vectors = 0xF0004000, hyp_vectors = 0xF0004800,
     trampoline_start = 0xF0005000, trampoline_end = 0xF0005200\<rparr>"

definition example_cpu :: per_cpu where
  "example_cpu = \<lparr>cpu_data_ptr = 0xF0010000, stack = 0xF0010000, guest_regs = 0xF0011F00\<rparr>"

definition second_cpu :: per_cpu where
  "second_cpu = \<lparr>cpu_data_ptr = 0xF0012000, stack = 0xF0012000, guest_regs = 0xF0013F00\<rparr>"

text \<open>An image whose trampoline section is four pages long.\<close>

definition four_page_image :: hyp_image where
  "four_page_image =
    \<lparr>bootstrap_vectors = 0xF0004000, hyp_vectors = 0xF0004800,
     trampoline_start = 0xF0005000, trampoline_end = 0xF0009000\<rparr>"

text \<open>A \<open>per_cpu\<close> whose stack does not start at a page boundary.\<close>

definition misaligned_cpu :: per_cpu where
  "misaligned_cpu = \<lparr>cpu_data_ptr = 0xF0010000, stack = 0xF0010800, guest_regs = 0xF0011F00\<rparr>"

text \<open>
  A core whose MMU is off at EL2, whose hypervisor stub reports the vector base
  \<open>0x40204000\<close> and whose address translation agrees with the page table; and a core
  whose hypervisor stub reports the vector base \<open>0\<close>.
\<close>

definition example_env :: cpu_env where
  "example_env =
    \<lparr>hvc_vectors = 0x40204000, sctlr_el2_in = 0x30C50830, sctlr_el1_in = 0x10C5387D,
     par_after_ats1hr = (\<lambda>v. ucast (v - 0x74000000) AND 0xFFFFFFF000)\<rparr>"

definition zero_vectors_env :: cpu_env where
  "zero_vectors_env = example_env\<lparr>hvc_vectors := 0\<rparr>"

text \<open>
  The region of the end-to-end scenario of the specification, two regions of
  configs/bananapi.c (UART0-3 and RAM), and a communication region whose
  \<open>phys_start\<close> is arbitrary.
\<close>

definition scenario_region :: jailhouse_memory where
  "scenario_region =
    \<lparr>phys_start = 0x40000000, virt_start = 0x40000000, mem_size = 0x1000,
     mem_flags = JAILHOUSE_MEM_READ cell_config_consts OR JAILHOUSE_MEM_WRITE cell_config_consts\<rparr>"

definition bananapi_uart :: jailhouse_memory where
  "bananapi_uart =
    \<lparr>phys_start = 0x01c28000, virt_start = 0x01c28000, mem_size = 0x1000,
     mem_flags = JAILHOUSE_MEM_READ cell_config_consts OR JAILHOUSE_MEM_WRITE cell_config_consts
       OR JAILHOUSE_MEM_IO cell_config_consts\<rparr>"

definition bananapi_ram :: jailhouse_memory where
  "bananapi_ram =
    \<lparr>phys_start = 0x40000000, virt_start = 0x40000000, mem_size = 0x3c000000,
     mem_flags = JAILHOUSE_MEM_READ cell_config_consts OR JAILHOUSE_MEM_WRITE cell_config_consts
       OR JAILHOUSE_MEM_EXECUTE cell_config_consts\<rparr>"

definition example_comm_region :: jailhouse_memory where
  "example_comm_region =
    \<lparr>phys_start = 0x12345000, virt_start = 0x80000000, mem_size = 0x1000,
     mem_flags = JAILHOUSE_MEM_READ cell_config_consts OR JAILHOUSE_MEM_WRITE cell_config_consts
       OR JAILHOUSE_MEM_COMM_REGION cell_config_consts\<rparr>"

text \<open>
  A communication region whose \<open>virt_start\<close> and \<open>size\<close> do not fit in 32 bits.
\<close>

definition wide_comm_region :: jailhouse_memory where
  "wide_comm_region =
    \<lparr>phys_start = 0x12345000, virt_start = 0x180000000, mem_size = 0x100001000,
     mem_flags = JAILHOUSE_MEM_READ cell_config_consts OR JAILHOUSE_MEM_WRITE cell_config_consts
       OR JAILHOUSE_MEM_COMM_REGION cell_config_consts\<rparr>"

text \<open>
  A cell before \<open>arch_mmu_cell_init\<close>, a pool holding one block, the cell after
  \<open>arch_mmu_cell_init\<close> and the table memory after \<open>arch_map_memory_region\<close> of the
  scenario's region into empty tables.
\<close>

definition scenario_cell :: cell where
  "scenario_cell =
    \<lparr>cell_id = 1, comm_page = 0xF0020000,
     arch_mm = \<lparr>root_paging = 0, root_table = 0\<rparr>,
     cpu_set = \<lparr>max_cpu_id = 1, bitmap = (\<lambda>c. c = 1)\<rparr>,
     vpci_irq_base = 100\<rparr>"

definition scenario_pool :: "ulong list" where
  "scenario_pool = [0xF0100000]"

definition scenario_mapped_cell :: cell where
  "scenario_mapped_cell =
     fst (snd (arch_mmu_cell_init free_list_pool lpae_s2_consts scenario_cell scenario_pool))"

definition scenario_memory :: table_memory where
  "scenario_memory =
     snd (arch_map_memory_region example_ops cell_config_consts lpae_s2_consts
            (\<lambda>r. Map.empty) scenario_mapped_cell scenario_region)"

text \<open>
  A core that ran the cell with identifier \<open>1\<close> so far, and the cell with identifier
  \<open>2\<close> that it is about to run.
\<close>

definition core_before :: core_state where
  "core_before =
    \<lparr>sysregs = (\<lambda>r. if r = VTTBR_EL2 then 0x000100007FF00000 else 0),
     visible_vttbr = 0x000100007FF00000,
     core_trace = []\<rparr>"

definition second_cell :: cell where
  "second_cell = scenario_cell\<lparr>cell_id := 2\<rparr>"

text \<open>
  Two connected endpoints: endpoint \<open>0\<close> belongs to a device of cell \<open>0\<close> (CPU \<open>0\<close>,
  \<open>vpci_irq_base = 123\<close> as in configs/bananapi.c, interrupt pin \<open>1\<close>), endpoint \<open>1\<close>
  to a device of cell \<open>1\<close> (CPU \<open>1\<close>, \<open>vpci_irq_base = 100\<close>, interrupt pin \<open>2\<close>); each
  is the \<open>remote\<close> of the other. The pin is the second byte of the configuration-space
  word at byte offset \<open>0x3C\<close>.
\<close>

definition doorbell_world :: ivshmem_world where
  "doorbell_world =
    \<lparr>endpoints = (\<lambda>e. if e = 0
        then \<lparr>cspace = (\<lambda>r. if r = 15 then 0x100 else 0), device = 0, remote = 1\<rparr>
        else \<lparr>cspace = (\<lambda>r. if r = 15 then 0x200 else 0), device = 1, remote = 0\<rparr>),
     devices = (\<lambda>d. \<lparr>cell = d\<rparr>),
     cells = (\<lambda>c. if c = 0
        then scenario_cell\<lparr>cell_id := 0, cpu_set := \<lparr>max_cpu_id = 1, bitmap = (\<lambda>c. c = 0)\<rparr>,
               vpci_irq_base := 123\<rparr>
        else scenario_cell),
     pending = []\<rparr>"

section \<open>Page arithmetic on machine words\<close>

lemma and_not_pow_mask:
  fixes a :: "32 word"
  shows "a AND NOT (2 ^ n - 1) = push_bit n (drop_bit n a)"
  by (rule bit_word_eqI) (auto simp add: bit_simps simp flip: mask_eq_exp_minus_1)

lemma push_drop_inj:
  fixes a b :: "32 word"
  assumes h: "push_bit n (drop_bit n a) = push_bit n (drop_bit n b)"
  shows "drop_bit n a = drop_bit n b"
proof (rule bit_word_eqI)
  fix k assume "k < LENGTH(32)"
  have "bit (push_bit n (drop_bit n a)) (n + k) = bit (push_bit n (drop_bit n b)) (n + k)"
    using h by simp
  then show "bit (drop_bit n a) k = bit (drop_bit n b) k"
    by (auto simp add: bit_simps dest: bit_imp_le_length)
qed

lemma same_page_iff:
  fixes a b :: "32 word"
  shows "(a AND NOT (2 ^ n - 1) = b AND NOT (2 ^ n - 1)) = (unat a div 2 ^ n = unat b div 2 ^ n)"
proof -
  have "(push_bit n (drop_bit n a) = push_bit n (drop_bit n b)) = (drop_bit n a = drop_bit n b)"
    using push_drop_inj [of n a b] by auto
  moreover have "(drop_bit n a = drop_bit n b) = (unat (drop_bit n a) = unat (drop_bit n b))"
    by (simp add: word_unat_eq_iff)
  moreover have "unat (drop_bit n a) = unat a div 2 ^ n" "unat (drop_bit n b) = unat b div 2 ^ n"
    by (simp_all only: unat_drop_bit_eq) (simp_all only: drop_bit_eq_div)
  ultimately show ?thesis
    by (simp only: and_not_pow_mask)
qed

lemma page_mask_same_page:
  assumes "page_geometry K n"
  shows "(a AND PAGE_MASK K = b AND PAGE_MASK K) = (unat a div 2 ^ n = unat b div 2 ^ n)"
  using assms same_page_iff [of a n b] by (simp add: page_geometry_def)

lemma unat_page_size:
  assumes "page_geometry K n"
  shows "unat (PAGE_SIZE K) = 2 ^ n"
proof -
  have "n < 32" and ps: "PAGE_SIZE K = 2 ^ n" using assms by (simp_all add: page_geometry_def)
  have "(2 :: 32 word) ^ n = of_nat (2 ^ n)" by simp
  then have "unat ((2 :: 32 word) ^ n) = 2 ^ n mod 2 ^ 32"
    by (simp only: unat_of_nat) simp
  moreover have "(2 :: nat) ^ n < 2 ^ 32"
    using \<open>n < 32\<close> power_strict_increasing [of n 32 "2 :: nat"] by simp
  ultimately show ?thesis using ps by simp
qed

lemma offset_zero_iff:
  assumes "page_geometry K n"
  shows "(a AND NOT (PAGE_MASK K) = 0) = (unat a mod 2 ^ n = 0)"
proof -
  have "a AND NOT (PAGE_MASK K) = take_bit n a"
    using assms by (simp add: page_geometry_def take_bit_eq_mask mask_eq_exp_minus_1)
  moreover have "(take_bit n a = 0) = (unat (take_bit n a) = 0)"
    by (simp add: unat_eq_zero)
  moreover have "unat (take_bit n a) = unat a mod 2 ^ n"
    by (simp only: unsigned_take_bit_eq) (simp only: take_bit_eq_mod)
  ultimately show ?thesis by simp
qed

lemma unat_end_of_range:
  fixes a sz :: "32 word"
  assumes "sz \<noteq> 0"
  shows "unat (a + sz - 1) = (unat a + unat sz - 1) mod 2 ^ 32"
proof -
  have e: "a + sz - 1 = a + (sz - 1)" by simp
  have "unat (sz - 1) = unat sz - 1" using assms by (simp add: unat_minus_one)
  moreover have "0 < unat sz" using assms by (simp add: unat_gt_0)
  moreover have "unat (a + (sz - 1)) = (unat a + unat (sz - 1)) mod 2 ^ 32"
    by (simp add: unat_word_ariths)
  ultimately have "unat (a + (sz - 1)) = (unat a + unat sz - 1) mod 2 ^ 32"
    by simp
  then show ?thesis by (simp only: e)
qed

lemma div_block:
  fixes p :: nat
  assumes "r < p"
  shows "(p * j + r) div p = j"
  using assms by simp

lemma pred_multiple_div:
  fixes p :: nat
  assumes p: "0 < p" and k: "0 < k"
  shows "(p * k - 1) div p = k - 1"
proof -
  obtain j where j: "k = Suc j" using k by (cases k) simp_all
  have "p * k - 1 = p * j + (p - 1)" using p j by simp
  moreover have "p - 1 < p" using p by simp
  ultimately show ?thesis using div_block [of "p - 1" p j] j by simp
qed

lemma pred_nonmultiple_div:
  fixes p :: nat
  assumes p: "0 < p" and "A mod p \<noteq> 0"
  shows "(A - 1) div p = A div p"
proof -
  have "A = p * (A div p) + A mod p" by simp
  then have "A - 1 = p * (A div p) + (A mod p - 1)"
    using assms by simp
  moreover have "A mod p - 1 < p"
    using p by (simp add: less_imp_diff_less)
  ultimately show ?thesis using div_block [of "A mod p - 1" p "A div p"] by simp
qed

lemma aligned_zero_size_other_page:
  fixes a :: "32 word"
  assumes n: "n < 32" and al: "unat a mod 2 ^ n = 0"
  shows "unat a div 2 ^ n \<noteq> unat (a - 1) div 2 ^ n"
proof (cases "a = 0")
  case True
  have "unat (0 - 1 :: 32 word) = 2 ^ 32 - 1"
    by (simp add: unsigned_minus_1_eq_mask mask_eq_exp_minus_1)
  moreover have "(2 :: nat) ^ n \<le> 2 ^ 32 - 1"
  proof -
    have "(2 :: nat) ^ n \<le> 2 ^ 31" using n power_increasing [of n 31 "2 :: nat"] by simp
    then show ?thesis by simp
  qed
  then have "0 < ((2 :: nat) ^ 32 - 1) div 2 ^ n"
    by (simp add: div_greater_zero_iff)
  ultimately show ?thesis using True by simp
next
  case False
  then have u: "unat (a - 1) = unat a - 1" by (simp add: unat_minus_one)
  have pos: "0 < unat a" using False by (simp add: unat_gt_0)
  obtain k where k: "unat a = 2 ^ n * k" using al by (auto simp add: mod_eq_0_iff_dvd)
  have kpos: "0 < k" using pos k by (cases k) simp_all
  have "(2 ^ n * k - 1) div 2 ^ n = k - 1"
    using pred_multiple_div [of "2 ^ n" k] kpos by simp
  then show ?thesis using k kpos u by simp
qed

lemma unaligned_zero_size_same_page:
  fixes a :: "32 word"
  assumes al: "unat a mod 2 ^ n \<noteq> 0"
  shows "unat a div 2 ^ n = unat (a - 1) div 2 ^ n"
proof -
  have "a \<noteq> 0" using al by auto
  then have u: "unat (a - 1) = unat a - 1" by (simp add: unat_minus_one)
  show ?thesis using pred_nonmultiple_div [of "2 ^ n" "unat a"] al u by simp
qed

lemma code_check_is_crossing:
  assumes geo: "page_geometry K n" and sz1: "1 \<le> unat sz"
    and szb: "unat sz + unat (PAGE_SIZE K) \<le> 2 ^ 32 + 1"
  shows "((a AND PAGE_MASK K) \<noteq> ((a + sz - 1) AND PAGE_MASK K))
           = crosses_page_boundary (unat (PAGE_SIZE K)) (unat a) (unat sz)"
proof -
  define A S P where "A = unat a" and "S = unat sz" and "P = (2 :: nat) ^ n"
  have P: "unat (PAGE_SIZE K) = P" using unat_page_size [OF geo] by (simp add: P_def)
  have Ppos: "0 < P" by (simp add: P_def)
  have S1: "1 \<le> S" using sz1 by (simp add: S_def)
  have SP: "S + P \<le> 2 ^ 32 + 1" using szb P by (simp add: S_def)
  have A32: "A < 2 ^ 32" using unsigned_less [of a, where 'a = nat] by (simp add: A_def)
  have S32: "S < 2 ^ 32" using unsigned_less [of sz, where 'a = nat] by (simp add: S_def)
  have "sz \<noteq> 0" using sz1 by auto
  then have e: "unat (a + sz - 1) = (A + S - 1) mod 2 ^ 32"
    using unat_end_of_range [of sz a] by (simp add: A_def S_def)
  have code: "((a AND PAGE_MASK K) \<noteq> ((a + sz - 1) AND PAGE_MASK K))
                = (A div P \<noteq> ((A + S - 1) mod 2 ^ 32) div P)"
    using page_mask_same_page [OF geo, of a "a + sz - 1"] e by (simp add: A_def P_def)
  have "(A div P \<noteq> ((A + S - 1) mod 2 ^ 32) div P) = (A div P \<noteq> (A + S - 1) div P)"
  proof (cases "A + S - 1 < 2 ^ 32")
    case True
    then show ?thesis by simp
  next
    case False
    then have ge: "2 ^ 32 \<le> A + S - 1" by simp
    define W where "W = A + S - 1 - 2 ^ 32"
    have "A + S - 1 < 2 ^ 32 + 2 ^ 32" using A32 S32 by simp
    then have m: "(A + S - 1) mod 2 ^ 32 = W"
      using ge by (simp add: mod_if W_def)
    have lt: "W + P \<le> A" using SP ge by (simp add: W_def)
    have "W div P + 1 = (W + P) div P"
      using Ppos by (simp only: div_add_self2)
    also have "\<dots> \<le> A div P" using lt by (rule div_le_mono)
    finally have l: "W div P < A div P" by simp
    define Q where "Q = (2 :: nat) ^ (32 - n)"
    have PQ: "P * Q = 2 ^ 32"
    proof -
      have "n < 32" using geo by (simp add: page_geometry_def)
      then have "n + (32 - n) = 32" by simp
      then have "(2 :: nat) ^ n * 2 ^ (32 - n) = 2 ^ 32"
        by (simp only: power_add [symmetric])
      then show ?thesis by (simp add: P_def Q_def)
    qed
    have "A < Q * P" using A32 PQ by (simp add: mult.commute)
    then have "A div P < Q" by (rule less_mult_imp_div_less)
    moreover have "Q = (P * Q) div P" using Ppos by simp
    moreover have "(P * Q) div P \<le> (A + S - 1) div P"
      using ge PQ by (intro div_le_mono) simp
    ultimately have r: "A div P \<noteq> (A + S - 1) div P" by simp
    show ?thesis using l r m by simp
  qed
  then show ?thesis using code S1 P by (simp add: crosses_page_boundary_def A_def S_def)
qed

section \<open>The instance of the constants, field by field\<close>

lemma lpae_paging_fields:
  "PAGE_SIZE lpae_paging_consts = 0x1000"
  "PAGE_MASK lpae_paging_consts = 0xFFFFF000"
  "PAGE_DEFAULT_FLAGS lpae_paging_consts = 0x741"
  "PAGE_PRESENT_FLAGS lpae_paging_consts = 0x1"
  "INVALID_PHYS_ADDR lpae_paging_consts = 0xFFFFFFFF"
  "JAILHOUSE_BASE lpae_paging_consts = 0xF0000000"
  "TTBR_MASK lpae_paging_consts = 0xFFFFFFFFFFE0"
  by (simp_all add: lpae_paging_consts_def)

lemma lpae_s2_fields:
  "VTTBR_VMID_SHIFT lpae_s2_consts = 48"
  "VTCR_CELL lpae_s2_consts = 0x80003540"
  "ARM_CELL_ROOT_PT_SZ lpae_s2_consts = 1"
  "PTE_FLAG_VALID lpae_s2_consts = 0x1"
  "PTE_ACCESS_FLAG lpae_s2_consts = 0x400"
  "S2_PTE_ACCESS_RO lpae_s2_consts = 0x40"
  "S2_PTE_ACCESS_WO lpae_s2_consts = 0x80"
  "S2_PTE_FLAG_DEVICE lpae_s2_consts = 0x4"
  "S2_PTE_FLAG_NORMAL lpae_s2_consts = 0x3C"
  "S2_PAGE_ACCESS_XN lpae_s2_consts = 0x400000"
  "cell_paging lpae_s2_consts = 0xF0001000"
  by (simp_all add: lpae_s2_consts_def)

lemma cell_config_fields:
  "JAILHOUSE_MEM_READ cell_config_consts = 0x1"
  "JAILHOUSE_MEM_WRITE cell_config_consts = 0x2"
  "JAILHOUSE_MEM_EXECUTE cell_config_consts = 0x4"
  "JAILHOUSE_MEM_IO cell_config_consts = 0x10"
  "JAILHOUSE_MEM_COMM_REGION cell_config_consts = 0x20"
  by (simp_all add: cell_config_consts_def)

lemma example_ops_fields:
  "paging_create example_ops = pm_paging_create lpae_paging_consts"
  "paging_destroy example_ops = pm_paging_destroy lpae_paging_consts"
  "paging_virt2phys example_ops = pm_paging_virt2phys lpae_paging_consts"
  "paging_hvirt2phys example_ops v = v - 0x74000000"
  by (simp_all add: example_ops_def page_map_ops_def)

lemma lpae_page_geometry: "page_geometry lpae_paging_consts 12"
  by (simp add: page_geometry_def lpae_paging_consts_def)

lemma index_one_in_range: "\<not> (2 :: u32) \<le> 1"
  by (simp add: word_le_nat_alt)

section \<open>The identity-map slots\<close>

lemma set_id_map_result:
  "set_id_map K i a sz s =
    (if 2 \<le> i then (Inl ENOMEM, s)
     else if (a AND PAGE_MASK K) \<noteq> ((a + sz - 1) AND PAGE_MASK K) then (Inl E2BIG, s)
     else (Inr (), s\<lparr>id_maps := (id_maps s)(unat i :=
            (id_maps s (unat i))\<lparr>addr := a, conflict := False, flags := PAGE_DEFAULT_FLAGS K\<rparr>)\<rparr>))"
  by (simp add: set_id_map_def ARRAY_SIZE_id_maps_def)

lemma set_id_map_fst:
  "fst (set_id_map K i a sz s) =
    (if 2 \<le> i then Inl ENOMEM
     else if (a AND PAGE_MASK K) \<noteq> ((a + sz - 1) AND PAGE_MASK K) then Inl E2BIG
     else Inr ())"
  by (simp add: set_id_map_result)

lemma set_id_map_keeps:
  "table_mem (snd (set_id_map K i a sz s)) = table_mem s"
  "trace (snd (set_id_map K i a sz s)) = trace s"
  "saved_vectors (snd (set_id_map K i a sz s)) = saved_vectors s"
  "hv_paging_structs (snd (set_id_map K i a sz s)) = hv_paging_structs s"
  by (simp_all add: set_id_map_result)

lemma set_id_map_error_state:
  "fst (set_id_map K i a sz s) \<noteq> Inr () \<Longrightarrow> snd (set_id_map K i a sz s) = s"
  by (simp add: set_id_map_result split: if_splits)

lemma switch_exception_level_error:
  assumes "fst (set_id_map K 0 (paging_hvirt2phys pg (trampoline_start img))
                  (trampoline_size img) s) \<noteq> Inr ()
           \<or> fst (set_id_map K 1 (paging_hvirt2phys pg (stack cpu_data)) (PAGE_SIZE K) s)
                \<noteq> Inr ()"
  shows "fst (switch_exception_level pg K R img env cpu_data s) = Some (Inl E2BIG)
         \<and> table_mem (snd (switch_exception_level pg K R img env cpu_data s)) = table_mem s
         \<and> trace (snd (switch_exception_level pg K R img env cpu_data s))
             = trace s @ (if saved_vectors s = 0 then [EvHvcGetVectors] else [])"
  using assms
  by (simp add: switch_exception_level_def Let_def case_prod_beta set_id_map_fst
        set_id_map_keeps log_def)

text \<open>
  C10. A reservation of size zero at a page-aligned address is rejected with the
  size-too-large error and changes nothing: the guard compares the page of \<open>address\<close>
  with the page of \<open>address + size - 1\<close>, which for size zero is the last byte of the
  preceding page (of the last page of the address space for address zero). A reservation
  of size zero at an address that is not page-aligned succeeds. This holds for every
  index within the slot count and every page size \<open>2 ^ n\<close> with \<open>n < 32\<close>.
\<close>

theorem set_id_map_zero_size:
  assumes geo: "page_geometry K n" and i: "i < 2"
  shows "(if a AND NOT (PAGE_MASK K) = 0
          then set_id_map K i a 0 s = (Inl E2BIG, s)
          else fst (set_id_map K i a 0 s) = Inr ())"
proof -
  have n: "n < 32" using geo by (simp add: page_geometry_def)
  have i': "\<not> 2 \<le> i" using i by simp
  have pg: "(a AND PAGE_MASK K = (a + 0 - 1) AND PAGE_MASK K)
              = (unat a div 2 ^ n = unat (a - 1) div 2 ^ n)"
    using page_mask_same_page [OF geo, of a "a - 1"] by simp
  show ?thesis
  proof (cases "a AND NOT (PAGE_MASK K) = 0")
    case True
    then have "unat a mod 2 ^ n = 0" using offset_zero_iff [OF geo] by simp
    then have "unat a div 2 ^ n \<noteq> unat (a - 1) div 2 ^ n"
      using aligned_zero_size_other_page [OF n] by simp
    then show ?thesis using True pg i' by (simp add: set_id_map_result)
  next
    case False
    then have "unat a mod 2 ^ n \<noteq> 0" using offset_zero_iff [OF geo] by simp
    then have "unat a div 2 ^ n = unat (a - 1) div 2 ^ n"
      using unaligned_zero_size_same_page by simp
    then show ?thesis using False pg i' by (simp add: set_id_map_result)
  qed
qed

theorem set_id_map_zero_size_witness:
  "page_geometry lpae_paging_consts 12 \<and> (0 :: u32) < 2
   \<and> set_id_map lpae_paging_consts 0 0x2000 0 booted_state = (Inl E2BIG, booted_state)
   \<and> set_id_map lpae_paging_consts 0 0 0 booted_state = (Inl E2BIG, booted_state)
   \<and> fst (set_id_map lpae_paging_consts 0 0x2001 0 booted_state) = Inr ()"
  using set_id_map_zero_size [OF lpae_page_geometry, of 0 "0x2000" booted_state]
    set_id_map_zero_size [OF lpae_page_geometry, of 0 0 booted_state]
    set_id_map_zero_size [OF lpae_page_geometry, of 0 "0x2001" booted_state]
  by (simp add: lpae_page_geometry lpae_paging_fields)

lemma switch_exception_level_no_error:
  assumes "fst (set_id_map K 0 (paging_hvirt2phys pg (trampoline_start img))
                  (trampoline_size img) s) = Inr ()"
    and "fst (set_id_map K 1 (paging_hvirt2phys pg (stack cpu_data)) (PAGE_SIZE K) s) = Inr ()"
  shows "fst (switch_exception_level pg K R img env cpu_data s) \<noteq> Some (Inl E2BIG)"
  using assms
  by (simp add: switch_exception_level_def Let_def case_prod_beta set_id_map_fst
        split: if_splits)

lemma switch_exception_level_E2BIG_early:
  assumes "fst (switch_exception_level pg K R img env cpu_data s) = Some (Inl E2BIG)"
  shows "table_mem (snd (switch_exception_level pg K R img env cpu_data s)) = table_mem s
         \<and> trace (snd (switch_exception_level pg K R img env cpu_data s))
             = trace s @ (if saved_vectors s = 0 then [EvHvcGetVectors] else [])"
proof (cases "fst (set_id_map K 0 (paging_hvirt2phys pg (trampoline_start img))
                  (trampoline_size img) s) \<noteq> Inr ()
           \<or> fst (set_id_map K 1 (paging_hvirt2phys pg (stack cpu_data)) (PAGE_SIZE K) s)
                \<noteq> Inr ()")
  case True
  then show ?thesis using switch_exception_level_error [of K pg img s cpu_data R env] by simp
next
  case False
  then show ?thesis
    using switch_exception_level_no_error [of K pg img s cpu_data R env] assms by simp
qed

lemma stack_crossing_rejected:
  assumes geo: "page_geometry K n"
    and cr: "crosses_page_boundary (unat (PAGE_SIZE K)) (unat (paging_hvirt2phys pg (stack cpu_data)))
               (unat (PAGE_SIZE K))"
  shows "fst (switch_exception_level pg K R img env cpu_data s) = Some (Inl E2BIG)"
proof -
  have n: "n < 32" using geo by (simp add: page_geometry_def)
  have P: "unat (PAGE_SIZE K) = 2 ^ n" by (rule unat_page_size [OF geo])
  have "(2 :: nat) ^ n \<le> 2 ^ 31" using n power_increasing [of n 31 "2 :: nat"] by simp
  then have b: "unat (PAGE_SIZE K) + unat (PAGE_SIZE K) \<le> 2 ^ 32 + 1" using P by simp
  have one: "1 \<le> unat (PAGE_SIZE K)" using P by simp
  have "fst (set_id_map K 1 (paging_hvirt2phys pg (stack cpu_data)) (PAGE_SIZE K) s) = Inl E2BIG"
    using code_check_is_crossing [OF geo one b, of "paging_hvirt2phys pg (stack cpu_data)"] cr
    by (simp add: set_id_map_fst index_one_in_range)
  then show ?thesis using switch_exception_level_error [of K pg img s cpu_data R env] by simp
qed

text \<open>
  C5 (with the bounds on the size that the code needs, and for the stack page). For
  every index within the slot count and every size with \<open>1 \<le> size\<close> and
  \<open>size + PAGE_SIZE \<le> 2 ^ 32 + 1\<close>, \<open>set_id_map\<close> returns the size-too-large error
  exactly when the byte range \<open>[address, address + size - 1]\<close> crosses a page
  boundary. Whenever it returns that error it leaves the state as it was: no slot is
  recorded and no mapping is created. \<open>switch_exception_level\<close> returns the
  size-too-large error whenever the byte range of the stack page,
  \<open>[stack_phys, stack_phys + PAGE_SIZE - 1]\<close>, crosses a page boundary; and whenever
  it returns that error, the page tables are unchanged and the only effect logged is the
  query of the vector base, if it was due: no identity mapping has been created. Nothing
  is said here of a trampoline that spans more than one page.
\<close>

theorem reserve_slot_page_check:
  assumes geo: "page_geometry K n" and i: "i < 2" and sz1: "1 \<le> unat sz"
    and szb: "unat sz + unat (PAGE_SIZE K) \<le> 2 ^ 32 + 1"
  shows "((fst (set_id_map K i a sz s) = Inl E2BIG)
            = crosses_page_boundary (unat (PAGE_SIZE K)) (unat a) (unat sz))
       \<and> (fst (set_id_map K i a sz s) = Inl E2BIG \<longrightarrow> snd (set_id_map K i a sz s) = s)
       \<and> (crosses_page_boundary (unat (PAGE_SIZE K))
             (unat (paging_hvirt2phys pg (stack cpu_data))) (unat (PAGE_SIZE K))
          \<longrightarrow> fst (switch_exception_level pg K R img env cpu_data t) = Some (Inl E2BIG))
       \<and> (fst (switch_exception_level pg K R img env cpu_data t) = Some (Inl E2BIG)
          \<longrightarrow> table_mem (snd (switch_exception_level pg K R img env cpu_data t)) = table_mem t
              \<and> trace (snd (switch_exception_level pg K R img env cpu_data t))
                  = trace t @ (if saved_vectors t = 0 then [EvHvcGetVectors] else []))"
proof -
  have i': "\<not> 2 \<le> i" using i by simp
  have c1: "(fst (set_id_map K i a sz s) = Inl E2BIG)
            = crosses_page_boundary (unat (PAGE_SIZE K)) (unat a) (unat sz)"
    using code_check_is_crossing [OF geo sz1 szb, of a] i' by (simp add: set_id_map_fst)
  have c2: "fst (set_id_map K i a sz s) = Inl E2BIG \<longrightarrow> snd (set_id_map K i a sz s) = s"
    using set_id_map_error_state [of K i a sz s] by simp
  have c3: "crosses_page_boundary (unat (PAGE_SIZE K))
             (unat (paging_hvirt2phys pg (stack cpu_data))) (unat (PAGE_SIZE K))
          \<longrightarrow> fst (switch_exception_level pg K R img env cpu_data t) = Some (Inl E2BIG)"
    using stack_crossing_rejected [OF geo, of pg cpu_data R img env t] by simp
  have c4: "fst (switch_exception_level pg K R img env cpu_data t) = Some (Inl E2BIG)
          \<longrightarrow> table_mem (snd (switch_exception_level pg K R img env cpu_data t)) = table_mem t
              \<and> trace (snd (switch_exception_level pg K R img env cpu_data t))
                  = trace t @ (if saved_vectors t = 0 then [EvHvcGetVectors] else [])"
    using switch_exception_level_E2BIG_early [of pg K R img env cpu_data t] by simp
  show ?thesis using c1 c2 c3 c4 by blast
qed

theorem reserve_slot_page_check_witness:
  "page_geometry lpae_paging_consts 12 \<and> (1 :: u32) < 2 \<and> 1 \<le> unat (0x1000 :: ulong)
   \<and> unat (0x1000 :: ulong) + unat (PAGE_SIZE lpae_paging_consts) \<le> 2 ^ 32 + 1
   \<and> fst (set_id_map lpae_paging_consts 1 0x7C010800 0x1000 booted_state) = Inl E2BIG
   \<and> crosses_page_boundary (unat (PAGE_SIZE lpae_paging_consts)) (unat (0x7C010800 :: ulong))
        (unat (0x1000 :: ulong))
   \<and> snd (set_id_map lpae_paging_consts 1 0x7C010800 0x1000 booted_state) = booted_state
   \<and> crosses_page_boundary (unat (PAGE_SIZE lpae_paging_consts))
        (unat (paging_hvirt2phys example_ops (stack misaligned_cpu)))
        (unat (PAGE_SIZE lpae_paging_consts))
   \<and> fst (switch_exception_level example_ops lpae_paging_consts lpae_el2_consts example_image
        example_env misaligned_cpu booted_state) = Some (Inl E2BIG)
   \<and> table_mem (snd (switch_exception_level example_ops lpae_paging_consts lpae_el2_consts
        example_image example_env misaligned_cpu booted_state)) = table_mem booted_state
   \<and> trace (snd (switch_exception_level example_ops lpae_paging_consts lpae_el2_consts
        example_image example_env misaligned_cpu booted_state)) = [EvHvcGetVectors]"
proof -
  have sz1: "1 \<le> unat (0x1000 :: ulong)" by simp
  have szb: "unat (0x1000 :: ulong) + unat (PAGE_SIZE lpae_paging_consts) \<le> 2 ^ 32 + 1"
    by (simp add: lpae_paging_fields)
  have i: "(1 :: u32) < 2" by (simp add: word_less_nat_alt)
  have st: "paging_hvirt2phys example_ops (stack misaligned_cpu) = 0x7C010800"
    by (simp add: example_ops_fields misaligned_cpu_def)
  have cr: "crosses_page_boundary (unat (PAGE_SIZE lpae_paging_consts))
              (unat (0x7C010800 :: ulong)) (unat (PAGE_SIZE lpae_paging_consts))"
    by (simp add: crosses_page_boundary_def lpae_paging_fields)
  have sv: "saved_vectors booted_state = 0" "trace booted_state = []"
    by (simp_all add: booted_state_def)
  show ?thesis
    using reserve_slot_page_check [OF lpae_page_geometry i sz1 szb, of "0x7C010800"
        booted_state example_ops misaligned_cpu lpae_el2_consts example_image example_env
        booted_state] st cr sv
    by (simp add: lpae_page_geometry lpae_paging_fields)
qed

theorem reserve_slot_page_check_counterexample:
  "fst (set_id_map lpae_paging_consts 0 0x1000 0 booted_state) = Inl E2BIG
   \<and> \<not> crosses_page_boundary (unat (PAGE_SIZE lpae_paging_consts)) (unat (0x1000 :: ulong))
         (unat (0 :: ulong))
   \<and> fst (set_id_map lpae_paging_consts 0 0x1FFF 0xFFFFF002 booted_state) = Inr ()
   \<and> crosses_page_boundary (unat (PAGE_SIZE lpae_paging_consts)) (unat (0x1FFF :: ulong))
         (unat (0xFFFFF002 :: ulong))"
  by (simp add: set_id_map_fst lpae_paging_fields crosses_page_boundary_def)

text \<open>
  The size that \<open>switch_exception_level\<close> passes for the trampoline is the difference
  of two pointers to \<open>unsigned long\<close>, a count of words and not of bytes, while
  \<open>set_id_map\<close> checks a range of bytes. A trampoline section of four pages that
  starts at a page boundary has \<open>0x1000\<close> words: its byte range crosses page
  boundaries, the reservation is accepted all the same, and the call returns \<open>0\<close>,
  where the comments of the source ask that the trampoline "should be contained in one
  page" and that "those regions must fit on one page".
\<close>

lemma four_page_trampoline_accepted:
  "trampoline_size four_page_image = 0x1000"
  "paging_hvirt2phys example_ops (trampoline_start four_page_image) = 0x7C005000"
  "crosses_page_boundary (unat (PAGE_SIZE lpae_paging_consts)) (unat (0x7C005000 :: ulong))
     (unat (trampoline_end four_page_image - trampoline_start four_page_image))"
  "fst (set_id_map lpae_paging_consts 0 0x7C005000 (trampoline_size four_page_image)
          booted_state) = Inr ()"
  "fst (switch_exception_level example_ops lpae_paging_consts lpae_el2_consts
          four_page_image example_env example_cpu booted_state) = Some (Inr ())"
  by (simp_all add: switch_exception_level_def Let_def case_prod_beta set_id_map_result
      example_ops_fields lpae_paging_fields four_page_image_def example_cpu_def
      example_env_def booted_state_def trampoline_size_def check_mmu_map_def
      pm_paging_virt2phys_def lpae_el2_consts_def log_def index_one_in_range
      crosses_page_boundary_def)

lemma log_fields:
  "trace (log e s) = trace s @ [e]"
  "id_maps (log e s) = id_maps s"
  "saved_vectors (log e s) = saved_vectors s"
  "hv_paging_structs (log e s) = hv_paging_structs s"
  "table_mem (log e s) = table_mem s"
  by (simp_all add: log_def)

lemma create_id_maps_body_fields:
  "id_maps (create_id_maps_body pg K i s) =
     (id_maps s)(i := (id_maps s i)\<lparr>conflict := slot_mapped pg K s i\<rparr>)"
  "trace (create_id_maps_body pg K i s) =
     trace s @ (if slot_mapped pg K s i then [] else [slot_create_call K s i])"
  "table_mem (create_id_maps_body pg K i s) =
     (if slot_mapped pg K s i then table_mem s
      else snd (paging_create pg (table_mem s) (hv_paging_structs s) (addr (id_maps s i))
                  (PAGE_SIZE K) (addr (id_maps s i)) (flags (id_maps s i))
                  PAGING_NON_COHERENT))"
  "hv_paging_structs (create_id_maps_body pg K i s) = hv_paging_structs s"
  "saved_vectors (create_id_maps_body pg K i s) = saved_vectors s"
  by (simp_all add: create_id_maps_body_def hv_paging_create_def log_fields Let_def
        slot_mapped_def slot_create_call_def)

lemma destroy_id_maps_body_fields:
  "id_maps (destroy_id_maps_body pg K i s) = id_maps s"
  "trace (destroy_id_maps_body pg K i s) =
     trace s @ (if conflict (id_maps s i) then [] else [slot_destroy_call K s i])"
  "table_mem (destroy_id_maps_body pg K i s) =
     (if conflict (id_maps s i) then table_mem s
      else snd (paging_destroy pg (table_mem s) (hv_paging_structs s) (addr (id_maps s i))
                  (PAGE_SIZE K) PAGING_NON_COHERENT))"
  "hv_paging_structs (destroy_id_maps_body pg K i s) = hv_paging_structs s"
  "saved_vectors (destroy_id_maps_body pg K i s) = saved_vectors s"
  by (simp_all add: destroy_id_maps_body_def hv_paging_destroy_def log_fields
        slot_destroy_call_def)

lemma create_id_maps_unfold:
  "create_id_maps pg K s = create_id_maps_body pg K 1 (create_id_maps_body pg K 0 s)"
  by (simp add: create_id_maps_def ARRAY_SIZE_id_maps_def numeral_2_eq_2)

lemma destroy_id_maps_unfold:
  "destroy_id_maps pg K s = destroy_id_maps_body pg K 1 (destroy_id_maps_body pg K 0 s)"
  by (simp add: destroy_id_maps_def ARRAY_SIZE_id_maps_def numeral_2_eq_2)

text \<open>
  C6. The loops of \<open>create_id_maps\<close> and \<open>destroy_id_maps\<close> run their body for slot
  \<open>0\<close> and then for slot \<open>1\<close>. For every slot \<open>i\<close>, the body of \<open>create_id_maps\<close> sets
  the conflict flag of the slot to whether its address translated in the hypervisor's
  page table, calls \<open>paging_create\<close> (an identity mapping of one page, with the slot's
  flags, non-coherent) if and only if it did not, and leaves the table memory as it was
  if it did. The body of \<open>destroy_id_maps\<close> calls \<open>paging_destroy\<close> for the slot's page
  if and only if the conflict flag of the slot is false, leaves the table memory as it
  was if the flag is true, and never changes a slot. After \<open>create_id_maps\<close> the flag of
  slot \<open>0\<close> is whether its address was mapped before the call, and the flag of slot \<open>1\<close>
  whether its address was mapped once slot \<open>0\<close> had been dealt with.
\<close>

theorem id_maps_create_destroy_symmetric:
  "create_id_maps pg K s = create_id_maps_body pg K 1 (create_id_maps_body pg K 0 s)
   \<and> destroy_id_maps pg K s = destroy_id_maps_body pg K 1 (destroy_id_maps_body pg K 0 s)
   \<and> conflict (id_maps (create_id_maps_body pg K i s) i) = slot_mapped pg K s i
   \<and> trace (create_id_maps_body pg K i s) =
       trace s @ (if slot_mapped pg K s i then [] else [slot_create_call K s i])
   \<and> table_mem (create_id_maps_body pg K i s) =
       (if slot_mapped pg K s i then table_mem s
        else snd (paging_create pg (table_mem s) (hv_paging_structs s) (addr (id_maps s i))
                    (PAGE_SIZE K) (addr (id_maps s i)) (flags (id_maps s i))
                    PAGING_NON_COHERENT))
   \<and> trace (destroy_id_maps_body pg K i s) =
       trace s @ (if conflict (id_maps s i) then [] else [slot_destroy_call K s i])
   \<and> table_mem (destroy_id_maps_body pg K i s) =
       (if conflict (id_maps s i) then table_mem s
        else snd (paging_destroy pg (table_mem s) (hv_paging_structs s) (addr (id_maps s i))
                    (PAGE_SIZE K) PAGING_NON_COHERENT))
   \<and> id_maps (destroy_id_maps pg K s) = id_maps s
   \<and> conflict (id_maps (create_id_maps pg K s) 0) = slot_mapped pg K s 0
   \<and> conflict (id_maps (create_id_maps pg K s) 1)
       = slot_mapped pg K (create_id_maps_body pg K 0 s) 1
   \<and> trace (create_id_maps pg K s) =
       trace s
       @ (if slot_mapped pg K s 0 then [] else [slot_create_call K s 0])
       @ (if slot_mapped pg K (create_id_maps_body pg K 0 s) 1 then []
          else [slot_create_call K s 1])
   \<and> trace (destroy_id_maps pg K s) =
       trace s
       @ (if conflict (id_maps s 0) then [] else [slot_destroy_call K s 0])
       @ (if conflict (id_maps s 1) then [] else [slot_destroy_call K s 1])"
  by (simp add: create_id_maps_unfold destroy_id_maps_unfold create_id_maps_body_fields
        destroy_id_maps_body_fields slot_create_call_def slot_destroy_call_def)

text \<open>
  On the page-map model, with slot \<open>0\<close> conflicting and slot \<open>1\<close> not: only the page of
  slot \<open>1\<close> is mapped and unmapped again, and the table is afterwards what it was, the
  earlier mapping of the page of slot \<open>0\<close> included.
\<close>

lemma reserved_fields:
  "hv_paging_structs reserved_state = \<lparr>root_paging = 0xF0002000, root_table = 0xF0003000\<rparr>"
  "addr (id_maps reserved_state 0) = 0x7C005000"
  "addr (id_maps reserved_state (Suc 0)) = 0x7C010000"
  "flags (id_maps reserved_state 0) = 0x741"
  "flags (id_maps reserved_state (Suc 0)) = 0x741"
  "table_mem reserved_state 0xF0003000 =
     [0xF0000000 \<mapsto> (0x7C000000, 0x741), 0x7C005000 \<mapsto> (0x7C005000, 0x741)]"
  "trace reserved_state = []"
  by (simp_all add: reserved_state_def booted_state_def)

lemma reserved_mapped:
  "slot_mapped example_ops lpae_paging_consts reserved_state 0"
  "\<not> slot_mapped example_ops lpae_paging_consts reserved_state (Suc 0)"
  by (simp_all add: slot_mapped_def example_ops_fields pm_paging_virt2phys_def reserved_fields
        lpae_paging_fields)

lemma reserved_after_slot_0:
  "table_mem (create_id_maps_body example_ops lpae_paging_consts 0 reserved_state)
     = table_mem reserved_state"
  "trace (create_id_maps_body example_ops lpae_paging_consts 0 reserved_state) = []"
  "hv_paging_structs (create_id_maps_body example_ops lpae_paging_consts 0 reserved_state)
     = hv_paging_structs reserved_state"
  "addr (id_maps (create_id_maps_body example_ops lpae_paging_consts 0 reserved_state) (Suc 0))
     = 0x7C010000"
  "flags (id_maps (create_id_maps_body example_ops lpae_paging_consts 0 reserved_state) (Suc 0))
     = 0x741"
  by (simp_all add: create_id_maps_body_fields reserved_mapped reserved_fields)

lemma reserved_slot_1_unmapped:
  "\<not> slot_mapped example_ops lpae_paging_consts
       (create_id_maps_body example_ops lpae_paging_consts 0 reserved_state) (Suc 0)"
  by (simp add: slot_mapped_def reserved_after_slot_0 example_ops_fields
        pm_paging_virt2phys_def reserved_fields lpae_paging_fields)

lemma reserved_created:
  "conflict (id_maps (create_id_maps example_ops lpae_paging_consts reserved_state) 0)"
  "\<not> conflict (id_maps (create_id_maps example_ops lpae_paging_consts reserved_state) (Suc 0))"
  "trace (create_id_maps example_ops lpae_paging_consts reserved_state) =
     [EvPagingCreate 0x7C010000 0x1000 0x7C010000 0x741 PAGING_NON_COHERENT]"
  "table_mem (create_id_maps example_ops lpae_paging_consts reserved_state) 0xF0003000 =
     [0xF0000000 \<mapsto> (0x7C000000, 0x741), 0x7C005000 \<mapsto> (0x7C005000, 0x741),
      0x7C010000 \<mapsto> (0x7C010000, 0x741)]"
  by (simp_all add: create_id_maps_unfold create_id_maps_body_fields reserved_mapped
        reserved_slot_1_unmapped reserved_after_slot_0 slot_create_call_def
        lpae_paging_fields reserved_fields example_ops_fields pm_paging_create_def
        num_pages_def)

lemma reserved_created_slots:
  "addr (id_maps (create_id_maps example_ops lpae_paging_consts reserved_state) 0) = 0x7C005000"
  "addr (id_maps (create_id_maps example_ops lpae_paging_consts reserved_state) (Suc 0))
     = 0x7C010000"
  "hv_paging_structs (create_id_maps example_ops lpae_paging_consts reserved_state)
     = \<lparr>root_paging = 0xF0002000, root_table = 0xF0003000\<rparr>"
  by (simp_all add: create_id_maps_unfold create_id_maps_body_fields reserved_fields)

lemma conflicting_slot_round_trip:
  "trace (destroy_id_maps example_ops lpae_paging_consts
            (create_id_maps example_ops lpae_paging_consts reserved_state)) =
     [EvPagingCreate 0x7C010000 0x1000 0x7C010000 0x741 PAGING_NON_COHERENT,
      EvPagingDestroy 0x7C010000 0x1000 PAGING_NON_COHERENT]"
  "table_mem (destroy_id_maps example_ops lpae_paging_consts
                (create_id_maps example_ops lpae_paging_consts reserved_state)) 0xF0003000
     = table_mem reserved_state 0xF0003000"
  by (simp_all add: destroy_id_maps_unfold destroy_id_maps_body_fields reserved_created
        reserved_created_slots slot_destroy_call_def lpae_paging_fields reserved_fields
        example_ops_fields pm_paging_destroy_def num_pages_def)

section \<open>The saved vector base\<close>

lemma set_id_map_hvc: "hvc_queries (snd (set_id_map K i a sz s)) = hvc_queries s"
  by (simp add: hvc_queries_def set_id_map_keeps)

lemma create_id_maps_keeps:
  "saved_vectors (create_id_maps pg K s) = saved_vectors s"
  "hvc_queries (create_id_maps pg K s) = hvc_queries s"
  by (simp_all add: create_id_maps_unfold create_id_maps_body_fields hvc_queries_def
        slot_create_call_def)

lemma destroy_id_maps_keeps:
  "saved_vectors (destroy_id_maps pg K s) = saved_vectors s"
  "hvc_queries (destroy_id_maps pg K s) = hvc_queries s"
  by (simp_all add: destroy_id_maps_unfold destroy_id_maps_body_fields hvc_queries_def
        slot_destroy_call_def)

lemma log_keeps:
  "e \<noteq> EvHvcGetVectors \<Longrightarrow> hvc_queries (log e s) = hvc_queries s"
  "hvc_queries (log EvHvcGetVectors s) = Suc (hvc_queries s)"
  by (simp_all add: hvc_queries_def log_fields)

lemma hvc_queries_update:
  "hvc_queries (s\<lparr>saved_vectors := v\<rparr>) = hvc_queries s"
  by (simp add: hvc_queries_def)

lemma cpu_switch_el2_keeps:
  "saved_vectors (cpu_switch_el2 p s) = saved_vectors s"
  "hvc_queries (cpu_switch_el2 p s) = hvc_queries s"
  by (simp_all add: cpu_switch_el2_def log_fields log_keeps)

lemma setup_mmu_el2_keeps:
  "saved_vectors (setup_mmu_el2 R env ttbr s) = saved_vectors s"
  "hvc_queries (setup_mmu_el2 R env ttbr s) = hvc_queries s"
  by (simp_all add: setup_mmu_el2_def Let_def log_fields hvc_queries_def)

lemma check_mmu_map_keeps:
  "saved_vectors (snd (check_mmu_map R env v p s)) = saved_vectors s"
  "hvc_queries (snd (check_mmu_map R env v p s)) = hvc_queries s"
  by (simp_all add: check_mmu_map_def Let_def log_fields log_keeps)

lemma switch_exception_level_saved_vectors:
  "saved_vectors (snd (switch_exception_level pg K R img env cpu_data s)) =
     (if saved_vectors s = 0 then hvc_vectors env else saved_vectors s)"
  by (simp add: switch_exception_level_def Let_def case_prod_beta set_id_map_keeps
        create_id_maps_keeps destroy_id_maps_keeps log_fields cpu_switch_el2_keeps
        setup_mmu_el2_keeps check_mmu_map_keeps)

lemma switch_exception_level_hvc_queries:
  "hvc_queries (snd (switch_exception_level pg K R img env cpu_data s)) =
     (if saved_vectors s = 0 then Suc (hvc_queries s) else hvc_queries s)"
  by (simp add: switch_exception_level_def Let_def case_prod_beta set_id_map_hvc
        create_id_maps_keeps destroy_id_maps_keeps log_keeps cpu_switch_el2_keeps
        setup_mmu_el2_keeps check_mmu_map_keeps hvc_queries_update)

lemma switch_calls_Cons:
  "switch_calls pg K R img ((env, cpu_data) # calls) s =
     switch_calls pg K R img calls (snd (switch_exception_level pg K R img env cpu_data s))"
  by (simp add: switch_calls_def)

lemma switch_calls_Nil: "switch_calls pg K R img [] s = s"
  by (simp add: switch_calls_def)

lemma switch_calls_captured:
  assumes "saved_vectors s \<noteq> 0"
  shows "saved_vectors (switch_calls pg K R img calls s) = saved_vectors s
         \<and> hvc_queries (switch_calls pg K R img calls s) = hvc_queries s"
  using assms
proof (induction calls arbitrary: s)
  case Nil
  then show ?case by (simp add: switch_calls_Nil)
next
  case (Cons c calls)
  obtain env cpu_data where c: "c = (env, cpu_data)" by (cases c)
  define s1 where "s1 = snd (switch_exception_level pg K R img env cpu_data s)"
  have s1: "saved_vectors s1 = saved_vectors s" "hvc_queries s1 = hvc_queries s"
    using Cons.prems
    by (simp_all add: s1_def switch_exception_level_saved_vectors
          switch_exception_level_hvc_queries)
  have "switch_calls pg K R img (c # calls) s = switch_calls pg K R img calls s1"
    by (simp add: switch_calls_Cons c s1_def)
  then show ?case using Cons.IH [of s1] s1 Cons.prems by simp
qed

lemma arch_shutdown_mmu_restores:
  "EvWriteSysreg HVBAR (ucast (saved_vectors s))
     \<in> set (trace (arch_shutdown_mmu pg K R img env cpu_data s))"
  by (simp add: arch_shutdown_mmu_def Let_def shutdown_el2_def hv_paging_create_def
        log_fields)

text \<open>
  C9 (for a vector base other than zero). Provided the vector base that the first query returns is not zero:
  the first call of \<open>switch_exception_level\<close> (the saved value is still zero) performs
  the query once and stores its result; every later call, on any core and whatever its
  own hardware would answer, performs no query and leaves the stored value unchanged;
  and \<open>arch_shutdown_mmu\<close> writes the stored value back to \<open>HVBAR\<close>. This holds whether
  the calls return or halt.
\<close>

theorem saved_vectors_captured_once:
  assumes "saved_vectors s = 0" and "hvc_vectors env \<noteq> 0"
  shows "saved_vectors (snd (switch_exception_level pg K R img env cpu_data s)) = hvc_vectors env
     \<and> hvc_queries (snd (switch_exception_level pg K R img env cpu_data s)) = Suc (hvc_queries s)
     \<and> saved_vectors (switch_calls pg K R img calls
          (snd (switch_exception_level pg K R img env cpu_data s))) = hvc_vectors env
     \<and> hvc_queries (switch_calls pg K R img calls
          (snd (switch_exception_level pg K R img env cpu_data s))) = Suc (hvc_queries s)
     \<and> EvWriteSysreg HVBAR (ucast (hvc_vectors env))
          \<in> set (trace (arch_shutdown_mmu pg K R img env' cpu_data'
                (switch_calls pg K R img calls
                   (snd (switch_exception_level pg K R img env cpu_data s)))))"
proof -
  define s1 where "s1 = snd (switch_exception_level pg K R img env cpu_data s)"
  have a: "saved_vectors s1 = hvc_vectors env" "hvc_queries s1 = Suc (hvc_queries s)"
    using assms
    by (simp_all add: s1_def switch_exception_level_saved_vectors
          switch_exception_level_hvc_queries)
  then have nz: "saved_vectors s1 \<noteq> 0" using assms by simp
  have b: "saved_vectors (switch_calls pg K R img calls s1) = hvc_vectors env"
    "hvc_queries (switch_calls pg K R img calls s1) = Suc (hvc_queries s)"
    using switch_calls_captured [OF nz, of pg K R img calls] a by simp_all
  have c: "EvWriteSysreg HVBAR (ucast (hvc_vectors env))
          \<in> set (trace (arch_shutdown_mmu pg K R img env' cpu_data'
                (switch_calls pg K R img calls s1)))"
    using arch_shutdown_mmu_restores [of "switch_calls pg K R img calls s1" pg K R img env'
        cpu_data'] b by simp
  show ?thesis using a b c by (simp add: s1_def)
qed

theorem saved_vectors_captured_once_witness:
  "saved_vectors booted_state = 0 \<and> hvc_vectors example_env \<noteq> 0
   \<and> saved_vectors (switch_calls example_ops lpae_paging_consts lpae_el2_consts example_image
        [(zero_vectors_env, second_cpu)]
        (snd (switch_exception_level example_ops lpae_paging_consts lpae_el2_consts
           example_image example_env example_cpu booted_state))) = 0x40204000
   \<and> hvc_queries (switch_calls example_ops lpae_paging_consts lpae_el2_consts example_image
        [(zero_vectors_env, second_cpu)]
        (snd (switch_exception_level example_ops lpae_paging_consts lpae_el2_consts
           example_image example_env example_cpu booted_state))) = 1"
  using saved_vectors_captured_once [of booted_state example_env example_ops lpae_paging_consts
      lpae_el2_consts example_image example_cpu "[(zero_vectors_env, second_cpu)]"]
  by (simp add: booted_state_def example_env_def hvc_queries_def)

theorem saved_vectors_captured_once_counterexample:
  "hvc_queries (snd (switch_exception_level example_ops lpae_paging_consts lpae_el2_consts
      example_image zero_vectors_env example_cpu booted_state)) = 1
   \<and> hvc_queries (switch_calls example_ops lpae_paging_consts lpae_el2_consts example_image
        [(zero_vectors_env, example_cpu), (example_env, second_cpu)] booted_state) = 2
   \<and> saved_vectors (snd (switch_exception_level example_ops lpae_paging_consts lpae_el2_consts
      example_image zero_vectors_env example_cpu booted_state)) = 0
   \<and> saved_vectors (switch_calls example_ops lpae_paging_consts lpae_el2_consts example_image
        [(zero_vectors_env, example_cpu), (example_env, second_cpu)] booted_state) = 0x40204000"
  by (simp add: switch_calls_Cons switch_calls_Nil switch_exception_level_hvc_queries
        switch_exception_level_saved_vectors)
     (simp add: booted_state_def zero_vectors_env_def example_env_def hvc_queries_def)

text \<open>
  The model runs: on the concrete inputs the call returns \<open>0\<close>, with both slots
  reserved, mapped, and unmapped again.
\<close>

lemma example_run:
  "fst (switch_exception_level example_ops lpae_paging_consts lpae_el2_consts
      example_image example_env example_cpu booted_state) = Some (Inr ())"
  by (simp add: switch_exception_level_def Let_def case_prod_beta set_id_map_result
      example_ops_fields lpae_paging_fields example_image_def example_cpu_def
      example_env_def booted_state_def trampoline_size_def check_mmu_map_def
      pm_paging_virt2phys_def lpae_el2_consts_def log_def index_one_in_range)


section \<open>The stage-2 translation manager\<close>

text \<open>
  C4. \<open>arch_mmu_cell_init\<close> returns the identifier-too-large error for every cell
  identifier above \<open>0xff\<close>, and then neither the cell nor the page pool has changed
  (nothing was allocated). For every identifier up to \<open>0xff\<close> it takes the root table
  from the pool and returns the out-of-memory error exactly when the allocator returned
  \<open>NULL\<close>, and success exactly when it returned a page, which is then the root table of
  the cell.
\<close>

theorem arch_mmu_cell_init_results:
  "(if 0xff < cell_id cl
    then arch_mmu_cell_init al C cl pool = (Inl E2BIG, cl, pool)
    else (fst (arch_mmu_cell_init al C cl pool) = Inl ENOMEM)
           = (fst (page_alloc_aligned al pool (ARM_CELL_ROOT_PT_SZ C)) = 0)
         \<and> (fst (arch_mmu_cell_init al C cl pool) = Inr ())
           = (fst (page_alloc_aligned al pool (ARM_CELL_ROOT_PT_SZ C)) \<noteq> 0)
         \<and> snd (snd (arch_mmu_cell_init al C cl pool))
           = snd (page_alloc_aligned al pool (ARM_CELL_ROOT_PT_SZ C))
         \<and> root_table (arch_mm (fst (snd (arch_mmu_cell_init al C cl pool))))
           = fst (page_alloc_aligned al pool (ARM_CELL_ROOT_PT_SZ C)))"
  by (simp add: arch_mmu_cell_init_def Let_def case_prod_beta)

text \<open>
  The three outcomes on the free-list pool: an identifier above \<open>0xff\<close>, an exhausted
  pool, and a pool that supplies the root table.
\<close>

lemma arch_mmu_cell_init_examples:
  "arch_mmu_cell_init free_list_pool lpae_s2_consts (scenario_cell\<lparr>cell_id := 0x100\<rparr>)
     scenario_pool = (Inl E2BIG, scenario_cell\<lparr>cell_id := 0x100\<rparr>, scenario_pool)"
  "fst (arch_mmu_cell_init free_list_pool lpae_s2_consts scenario_cell []) = Inl ENOMEM"
  "arch_mmu_cell_init free_list_pool lpae_s2_consts scenario_cell scenario_pool =
     (Inr (), scenario_cell\<lparr>arch_mm := \<lparr>root_paging = 0xF0001000, root_table = 0xF0100000\<rparr>\<rparr>, [])"
  by (simp_all add: arch_mmu_cell_init_def scenario_cell_def scenario_pool_def
        free_list_pool_def lpae_s2_fields)

lemma ucast_ucast_ulong:
  fixes x :: "32 word"
  shows "(ucast (ucast x :: 64 word) :: 32 word) = x"
  by (rule bit_word_eqI) (simp add: bit_simps)

lemma ucast_back:
  fixes x :: "64 word"
  assumes "x \<le> 0xFFFFFFFF"
  shows "(ucast (ucast x :: 32 word) :: 64 word) = x"
proof -
  have "unat x \<le> unat (0xFFFFFFFF :: 64 word)" using assms by (simp add: word_le_nat_alt)
  then have lt: "unat x < 2 ^ 32" by simp
  have "unat (take_bit 32 x) = take_bit 32 (unat x)"
    by (simp only: unsigned_take_bit_eq)
  then have "unat (take_bit 32 x) = unat x"
    using lt by (simp add: take_bit_eq_mod)
  then have tb: "take_bit 32 x = x" by (simp add: word_unat_eq_iff)
  have u: "(ucast (ucast x :: 32 word) :: 64 word) = take_bit 32 x"
    by (rule bit_word_eqI) (auto simp add: bit_simps)
  from u tb show ?thesis by (rule trans)
qed

text \<open>
  C3 (for a size and a virtual start below \<open>2 ^ 32\<close>). For every region whose flags
  include the communication-region bit, the physical address that
  \<open>arch_map_memory_region\<close> passes to \<open>paging_create\<close> is the physical address of
  the cell's own communication page, \<open>paging_hvirt2phys(&cell->comm_page)\<close>, and the
  arguments do not depend on the region's \<open>phys_start\<close> at all. The size and the
  virtual address passed are the region's \<open>size\<close> and \<open>virt_start\<close> narrowed to the
  32-bit \<open>unsigned long\<close> of the primitive: they are the region's values unchanged
  when these are at most \<open>0xFFFFFFFF\<close>, and their low 32 bits in any case.
\<close>

theorem comm_region_backing:
  assumes "mem_flags mem AND JAILHOUSE_MEM_COMM_REGION M \<noteq> 0"
  shows "fst (map_region_args pg M C cl mem) = paging_hvirt2phys pg (comm_page cl)
       \<and> fst (snd (map_region_args pg M C cl mem)) = ucast (mem_size mem)
       \<and> fst (snd (snd (map_region_args pg M C cl mem))) = ucast (virt_start mem)
       \<and> map_region_args pg M C cl (mem\<lparr>phys_start := p\<rparr>) = map_region_args pg M C cl mem
       \<and> arch_map_memory_region pg M C m cl mem
           = paging_create pg m (arch_mm cl) (paging_hvirt2phys pg (comm_page cl))
               (ucast (mem_size mem)) (ucast (virt_start mem))
               (snd (snd (snd (map_region_args pg M C cl mem)))) PAGING_COHERENT
       \<and> (mem_size mem \<le> 0xFFFFFFFF
            \<longrightarrow> (ucast (fst (snd (map_region_args pg M C cl mem))) :: u64) = mem_size mem)
       \<and> (virt_start mem \<le> 0xFFFFFFFF
            \<longrightarrow> (ucast (fst (snd (snd (map_region_args pg M C cl mem)))) :: u64)
                  = virt_start mem)"
proof -
  have a: "fst (map_region_args pg M C cl mem) = paging_hvirt2phys pg (comm_page cl)"
    "fst (snd (map_region_args pg M C cl mem)) = ucast (mem_size mem)"
    "fst (snd (snd (map_region_args pg M C cl mem))) = ucast (virt_start mem)"
    "map_region_args pg M C cl (mem\<lparr>phys_start := p\<rparr>) = map_region_args pg M C cl mem"
    "arch_map_memory_region pg M C m cl mem
           = paging_create pg m (arch_mm cl) (paging_hvirt2phys pg (comm_page cl))
               (ucast (mem_size mem)) (ucast (virt_start mem))
               (snd (snd (snd (map_region_args pg M C cl mem)))) PAGING_COHERENT"
    using assms
    by (simp_all add: map_region_args_def arch_map_memory_region_def Let_def ucast_ucast_ulong)
  have b: "mem_size mem \<le> 0xFFFFFFFF
            \<longrightarrow> (ucast (fst (snd (map_region_args pg M C cl mem))) :: u64) = mem_size mem"
    using ucast_back [of "mem_size mem"] by (simp only: a) simp
  have c: "virt_start mem \<le> 0xFFFFFFFF
            \<longrightarrow> (ucast (fst (snd (snd (map_region_args pg M C cl mem)))) :: u64)
                  = virt_start mem"
    using ucast_back [of "virt_start mem"] by (simp only: a) simp
  show ?thesis using a b c by blast
qed

theorem comm_region_backing_witness:
  "mem_flags example_comm_region AND JAILHOUSE_MEM_COMM_REGION cell_config_consts \<noteq> 0
   \<and> mem_size example_comm_region \<le> 0xFFFFFFFF
   \<and> virt_start example_comm_region \<le> 0xFFFFFFFF
   \<and> fst (map_region_args example_ops cell_config_consts lpae_s2_consts scenario_cell
        example_comm_region) = 0x7C020000
   \<and> (ucast (fst (snd (map_region_args example_ops cell_config_consts lpae_s2_consts
        scenario_cell example_comm_region))) :: u64) = mem_size example_comm_region
   \<and> (ucast (fst (snd (snd (map_region_args example_ops cell_config_consts lpae_s2_consts
        scenario_cell example_comm_region)))) :: u64) = virt_start example_comm_region
   \<and> map_region_args example_ops cell_config_consts lpae_s2_consts scenario_cell
        (example_comm_region\<lparr>phys_start := 0\<rparr>)
       = map_region_args example_ops cell_config_consts lpae_s2_consts scenario_cell
           example_comm_region"
proof -
  have f: "mem_flags example_comm_region AND JAILHOUSE_MEM_COMM_REGION cell_config_consts \<noteq> 0"
    by (simp add: example_comm_region_def cell_config_fields)
  have s: "mem_size example_comm_region \<le> 0xFFFFFFFF"
    "virt_start example_comm_region \<le> 0xFFFFFFFF"
    by (simp_all add: example_comm_region_def)
  have cp: "paging_hvirt2phys example_ops (comm_page scenario_cell) = 0x7C020000"
    by (simp add: example_ops_fields scenario_cell_def)
  note t = comm_region_backing [OF f, of example_ops lpae_s2_consts scenario_cell 0]
  have 1: "fst (map_region_args example_ops cell_config_consts lpae_s2_consts scenario_cell
        example_comm_region) = 0x7C020000"
    using t cp by (simp only:)
  have 2: "(ucast (fst (snd (map_region_args example_ops cell_config_consts lpae_s2_consts
        scenario_cell example_comm_region))) :: u64) = mem_size example_comm_region"
    using t s by blast
  have 3: "(ucast (fst (snd (snd (map_region_args example_ops cell_config_consts
        lpae_s2_consts scenario_cell example_comm_region)))) :: u64)
        = virt_start example_comm_region"
    using t s by blast
  have 4: "map_region_args example_ops cell_config_consts lpae_s2_consts scenario_cell
        (example_comm_region\<lparr>phys_start := 0\<rparr>)
       = map_region_args example_ops cell_config_consts lpae_s2_consts scenario_cell
           example_comm_region"
    using t by blast
  show ?thesis using f s 1 2 3 4 by blast
qed

theorem comm_region_backing_counterexample:
  "mem_flags wide_comm_region AND JAILHOUSE_MEM_COMM_REGION cell_config_consts \<noteq> 0
   \<and> mem_size wide_comm_region = 0x100001000
   \<and> fst (snd (map_region_args example_ops cell_config_consts lpae_s2_consts scenario_cell
        wide_comm_region)) = 0x1000
   \<and> virt_start wide_comm_region = 0x180000000
   \<and> fst (snd (snd (map_region_args example_ops cell_config_consts lpae_s2_consts
        scenario_cell wide_comm_region))) = 0x80000000
   \<and> (ucast (fst (snd (map_region_args example_ops cell_config_consts lpae_s2_consts
        scenario_cell wide_comm_region))) :: u64) \<noteq> mem_size wide_comm_region
   \<and> (ucast (fst (snd (snd (map_region_args example_ops cell_config_consts lpae_s2_consts
        scenario_cell wide_comm_region)))) :: u64) \<noteq> virt_start wide_comm_region"
  by (simp add: map_region_args_def Let_def wide_comm_region_def cell_config_fields)

lemma map_region_args_flags:
  "snd (snd (snd (map_region_args pg M C cl mem))) = s2_flags M C (mem_flags mem)"
  by (simp add: map_region_args_def Let_def s2_flags_def or.assoc)

lemma s2_flags_always:
  "s2_flags M C f AND PTE_FLAG_VALID C = PTE_FLAG_VALID C"
  "s2_flags M C f AND PTE_ACCESS_FLAG C = PTE_ACCESS_FLAG C"
  by (rule bit_word_eqI, auto simp add: s2_flags_def bit_simps)+

lemma s2_flags_read:
  "f AND JAILHOUSE_MEM_READ M \<noteq> 0
    \<Longrightarrow> s2_flags M C f AND S2_PTE_ACCESS_RO C = S2_PTE_ACCESS_RO C"
  by (rule bit_word_eqI) (auto simp add: s2_flags_def bit_simps)

lemma s2_flags_write:
  "f AND JAILHOUSE_MEM_WRITE M \<noteq> 0
    \<Longrightarrow> s2_flags M C f AND S2_PTE_ACCESS_WO C = S2_PTE_ACCESS_WO C"
  by (rule bit_word_eqI) (auto simp add: s2_flags_def bit_simps)

lemma s2_flags_type:
  "f AND JAILHOUSE_MEM_IO M \<noteq> 0
    \<Longrightarrow> s2_flags M C f AND S2_PTE_FLAG_DEVICE C = S2_PTE_FLAG_DEVICE C"
  "f AND JAILHOUSE_MEM_IO M = 0
    \<Longrightarrow> s2_flags M C f AND S2_PTE_FLAG_NORMAL C = S2_PTE_FLAG_NORMAL C"
  by (rule bit_word_eqI, auto simp add: s2_flags_def bit_simps)+

lemma scenario_mapped_cell_mm:
  "arch_mm scenario_mapped_cell = \<lparr>root_paging = 0xF0001000, root_table = 0xF0100000\<rparr>"
  by (simp add: scenario_mapped_cell_def arch_mmu_cell_init_examples)

text \<open>
  C8. \<open>arch_map_memory_region\<close> is one call of \<open>paging_create\<close> on the cell's
  stage-2 structures, coherent, whose flags argument is the function \<open>s2_flags\<close> of
  the region's flags word and of nothing else (not of the cell, the addresses or the
  size). In these flags the valid bit and the access bit are always set; the read-access
  bit is set for a readable region and the write-access bit for a writable one; an IO
  region carries the device memory type, and a region without the IO flag the normal
  memory type.
\<close>

theorem region_flags_translation:
  "snd (snd (snd (map_region_args pg M C cl mem))) = s2_flags M C (mem_flags mem)
   \<and> arch_map_memory_region pg M C m cl mem
       = paging_create pg m (arch_mm cl)
           (if mem_flags mem AND JAILHOUSE_MEM_COMM_REGION M \<noteq> 0
            then paging_hvirt2phys pg (comm_page cl) else ucast (phys_start mem))
           (ucast (mem_size mem)) (ucast (virt_start mem))
           (s2_flags M C (mem_flags mem)) PAGING_COHERENT
   \<and> s2_flags M C f AND PTE_FLAG_VALID C = PTE_FLAG_VALID C
   \<and> s2_flags M C f AND PTE_ACCESS_FLAG C = PTE_ACCESS_FLAG C
   \<and> (f AND JAILHOUSE_MEM_READ M \<noteq> 0
        \<longrightarrow> s2_flags M C f AND S2_PTE_ACCESS_RO C = S2_PTE_ACCESS_RO C)
   \<and> (f AND JAILHOUSE_MEM_WRITE M \<noteq> 0
        \<longrightarrow> s2_flags M C f AND S2_PTE_ACCESS_WO C = S2_PTE_ACCESS_WO C)
   \<and> (f AND JAILHOUSE_MEM_IO M \<noteq> 0
        \<longrightarrow> s2_flags M C f AND S2_PTE_FLAG_DEVICE C = S2_PTE_FLAG_DEVICE C)
   \<and> (f AND JAILHOUSE_MEM_IO M = 0
        \<longrightarrow> s2_flags M C f AND S2_PTE_FLAG_NORMAL C = S2_PTE_FLAG_NORMAL C)"
proof -
  have call: "arch_map_memory_region pg M C m cl mem
       = paging_create pg m (arch_mm cl)
           (if mem_flags mem AND JAILHOUSE_MEM_COMM_REGION M \<noteq> 0
            then paging_hvirt2phys pg (comm_page cl) else ucast (phys_start mem))
           (ucast (mem_size mem)) (ucast (virt_start mem))
           (s2_flags M C (mem_flags mem)) PAGING_COHERENT"
    by (simp add: arch_map_memory_region_def map_region_args_def Let_def s2_flags_def
          or.assoc ucast_ucast_ulong)
  show ?thesis
    using map_region_args_flags [of pg M C cl mem] call s2_flags_always [of M C f]
      s2_flags_read [of f M C] s2_flags_write [of f M C] s2_flags_type [of f M C]
    by simp
qed

theorem region_flags_translation_witness:
  "mem_flags bananapi_uart AND JAILHOUSE_MEM_READ cell_config_consts \<noteq> 0
   \<and> mem_flags bananapi_uart AND JAILHOUSE_MEM_WRITE cell_config_consts \<noteq> 0
   \<and> mem_flags bananapi_uart AND JAILHOUSE_MEM_IO cell_config_consts \<noteq> 0
   \<and> mem_flags bananapi_ram AND JAILHOUSE_MEM_IO cell_config_consts = 0
   \<and> snd (snd (snd (map_region_args example_ops cell_config_consts lpae_s2_consts
        scenario_cell bananapi_uart))) = 0x4C5
   \<and> snd (snd (snd (map_region_args example_ops cell_config_consts lpae_s2_consts
        scenario_cell bananapi_ram))) = 0x4FD
   \<and> s2_flags cell_config_consts lpae_s2_consts (mem_flags bananapi_uart)
        AND S2_PTE_FLAG_DEVICE lpae_s2_consts = S2_PTE_FLAG_DEVICE lpae_s2_consts
   \<and> s2_flags cell_config_consts lpae_s2_consts (mem_flags bananapi_ram)
        AND S2_PTE_FLAG_NORMAL lpae_s2_consts = S2_PTE_FLAG_NORMAL lpae_s2_consts
   \<and> snd (arch_map_memory_region example_ops cell_config_consts lpae_s2_consts
        (\<lambda>r. Map.empty) scenario_mapped_cell bananapi_uart) 0xF0100000 0x01c28000
       = Some (0x01c28000, 0x4C5)"
proof -
  have u: "mem_flags bananapi_uart = 0x13" and r: "mem_flags bananapi_ram = 0x7"
    by (simp_all add: bananapi_uart_def bananapi_ram_def cell_config_fields)
  have fu: "s2_flags cell_config_consts lpae_s2_consts 0x13 = 0x4C5"
    and fr: "s2_flags cell_config_consts lpae_s2_consts 0x7 = 0x4FD"
    by (simp_all add: s2_flags_def cell_config_fields lpae_s2_fields)
  have reg: "phys_start bananapi_uart = 0x01c28000" "virt_start bananapi_uart = 0x01c28000"
    "mem_size bananapi_uart = 0x1000"
    by (simp_all add: bananapi_uart_def)
  show ?thesis
    using region_flags_translation [of example_ops cell_config_consts lpae_s2_consts
        scenario_cell bananapi_uart "\<lambda>r. Map.empty" "mem_flags bananapi_uart"]
      region_flags_translation [of example_ops cell_config_consts lpae_s2_consts
        scenario_cell bananapi_ram "\<lambda>r. Map.empty" "mem_flags bananapi_ram"]
      region_flags_translation [of example_ops cell_config_consts lpae_s2_consts
        scenario_mapped_cell bananapi_uart "\<lambda>r. Map.empty" "mem_flags bananapi_uart"]
    by (simp add: u r fu fr reg cell_config_fields lpae_s2_fields example_ops_fields
          pm_paging_create_def num_pages_def lpae_paging_fields scenario_mapped_cell_mm)
qed

lemma scenario_args:
  "map_region_args example_ops cell_config_consts lpae_s2_consts scenario_mapped_cell
     scenario_region = (0x40000000, 0x1000, 0x40000000, 0x4FD)"
  by (simp add: map_region_args_def Let_def scenario_region_def lpae_s2_fields
        cell_config_fields)

lemma scenario_memory_root:
  "scenario_memory 0xF0100000 = [0x40000000 \<mapsto> (0x40000000, 0x4FD)]"
  by (simp add: scenario_memory_def arch_map_memory_region_def scenario_args
        example_ops_fields pm_paging_create_def scenario_mapped_cell_mm num_pages_def
        lpae_paging_fields)

text \<open>
  C2 (without the execute restriction, which the code does not set). For the cell with
  the one region
  \<open>{phys = 0x40000000, virt = 0x40000000, size = 0x1000, flags = READ | WRITE}\<close>,
  \<open>arch_mmu_cell_init\<close> and \<open>arch_map_memory_region\<close> succeed, and translating the
  guest address \<open>0x40000000\<close> through the cell's stage-2 table for the read and write
  access bits yields the host physical address \<open>0x40000000\<close>. The entry carries the
  valid, access, read-access, write-access and normal-memory bits and nothing else: no
  execute-never attribute is set, so a translation that asks for it has no result
  (\<open>INVALID_PHYS_ADDR\<close>). The paging primitives are the ones of the page-map model.
\<close>

theorem end_to_end_translation:
  "fst (arch_mmu_cell_init free_list_pool lpae_s2_consts scenario_cell scenario_pool) = Inr ()
   \<and> fst (arch_map_memory_region example_ops cell_config_consts lpae_s2_consts
            (\<lambda>r. Map.empty) scenario_mapped_cell scenario_region) = Inr ()
   \<and> arch_paging_gphys2phys example_ops scenario_memory scenario_mapped_cell 0x40000000
        (S2_PTE_ACCESS_RO lpae_s2_consts OR S2_PTE_ACCESS_WO lpae_s2_consts) = 0x40000000
   \<and> scenario_memory (root_table (arch_mm scenario_mapped_cell)) 0x40000000
        = Some (0x40000000,
            PTE_FLAG_VALID lpae_s2_consts OR PTE_ACCESS_FLAG lpae_s2_consts
            OR S2_PTE_ACCESS_RO lpae_s2_consts OR S2_PTE_ACCESS_WO lpae_s2_consts
            OR S2_PTE_FLAG_NORMAL lpae_s2_consts)
   \<and> arch_paging_gphys2phys example_ops scenario_memory scenario_mapped_cell 0x40000000
        (S2_PAGE_ACCESS_XN lpae_s2_consts) = INVALID_PHYS_ADDR lpae_paging_consts"
  by (simp add: arch_mmu_cell_init_examples arch_map_memory_region_def scenario_args
        example_ops_fields pm_paging_create_def arch_paging_gphys2phys_def
        pm_paging_virt2phys_def scenario_mapped_cell_mm scenario_memory_root
        lpae_paging_fields lpae_s2_fields)

theorem end_to_end_translation_counterexample:
  "arch_paging_gphys2phys example_ops scenario_memory scenario_mapped_cell 0x40000000
     (S2_PTE_ACCESS_RO lpae_s2_consts OR S2_PTE_ACCESS_WO lpae_s2_consts
      OR S2_PAGE_ACCESS_XN lpae_s2_consts) \<noteq> 0x40000000"
  by (simp add: example_ops_fields arch_paging_gphys2phys_def pm_paging_virt2phys_def
        scenario_mapped_cell_mm scenario_memory_root lpae_paging_fields lpae_s2_fields)

text \<open>
  The flags never depend on \<open>JAILHOUSE_MEM_EXECUTE\<close> or on \<open>S2_PAGE_ACCESS_XN\<close>,
  whatever the constants are: a region and the same region made executable are mapped
  with the same arguments.
\<close>

lemma execute_flag_is_ignored:
  assumes "JAILHOUSE_MEM_EXECUTE M AND JAILHOUSE_MEM_READ M = 0"
    and "JAILHOUSE_MEM_EXECUTE M AND JAILHOUSE_MEM_WRITE M = 0"
    and "JAILHOUSE_MEM_EXECUTE M AND JAILHOUSE_MEM_IO M = 0"
  shows "s2_flags M C (f OR JAILHOUSE_MEM_EXECUTE M) = s2_flags M C f"
proof -
  have "\<And>b :: u64. JAILHOUSE_MEM_EXECUTE M AND b = 0
          \<Longrightarrow> (f OR JAILHOUSE_MEM_EXECUTE M) AND b = f AND b"
    by (simp add: bit.conj_disj_distrib2)
  then show ?thesis using assms by (simp add: s2_flags_def)
qed

section \<open>Activation of a cell on a core\<close>

lemma arm_mmu_cpu_cell_init_trace:
  "core_trace (arm_mmu_cpu_cell_init pg K C this_cell pg_structs c) =
     core_trace c @
       [EvWriteSysreg VTTBR_EL2 (cell_vttbr pg K C this_cell pg_structs),
        EvWriteSysreg VTCR_EL2 (ucast (VTCR_CELL C)),
        EvIsb,
        EvTlbFlushGuest (vmid_of C (cell_vttbr pg K C this_cell pg_structs)),
        EvDsbNsh]"
  by (simp add: arm_mmu_cpu_cell_init_def Let_def arm_cpu_tlb_flush_def dsb_nsh_def
        tlb_flush_guest_def isb_def arm_write_sysreg_def cell_vttbr_def)

lemma arm_mmu_cpu_cell_init_visible:
  "visible_vttbr (arm_mmu_cpu_cell_init pg K C this_cell pg_structs c)
     = cell_vttbr pg K C this_cell pg_structs"
  by (simp add: arm_mmu_cpu_cell_init_def Let_def arm_cpu_tlb_flush_def dsb_nsh_def
        tlb_flush_guest_def isb_def arm_write_sysreg_def cell_vttbr_def)

lemma vmid_of_cell_vttbr:
  assumes lo: "32 \<le> VTTBR_VMID_SHIFT C" and hi: "VTTBR_VMID_SHIFT C \<le> 56"
  shows "vmid_of C (cell_vttbr pg K C this_cell pg_structs) = ucast (cell_id this_cell)"
proof (rule bit_word_eqI)
  fix n assume n: "n < LENGTH(8)"
  then have n8: "n < 8" by simp
  have a: "\<not> bit (ucast (paging_hvirt2phys pg (root_table pg_structs)) :: u64)
                 (VTTBR_VMID_SHIFT C + n)"
    using lo bit_imp_le_length [of "paging_hvirt2phys pg (root_table pg_structs)"
        "VTTBR_VMID_SHIFT C + n"]
    by (auto simp add: bit_simps)
  have b: "bit (push_bit (VTTBR_VMID_SHIFT C) (ucast (cell_id this_cell) :: u64))
              (VTTBR_VMID_SHIFT C + n) = bit (cell_id this_cell) n"
    using hi n8 by (simp add: bit_simps)
  show "bit (vmid_of C (cell_vttbr pg K C this_cell pg_structs)) n
          = bit (ucast (cell_id this_cell) :: u8) n"
    using a b n8 by (auto simp add: vmid_of_def cell_vttbr_def bit_simps)
qed

lemma core_before_vmid: "vmid_of lpae_s2_consts (visible_vttbr core_before) = 1"
  by (simp add: vmid_of_def core_before_def lpae_s2_fields drop_bit_eq_div)

text \<open>
  C7 (the flush is for the new identifier). \<open>arm_mmu_cpu_cell_init\<close> performs, in
  this order and nothing else:
  the write of \<open>VTTBR_EL2\<close> (partition identifier and table base), the write of
  \<open>VTCR_EL2\<close>, the instruction-synchronization barrier, the guest TLB flush, and a data
  synchronization barrier. The flush therefore runs when the new identifier is visible,
  and it targets the stage-1 and stage-2 entries of that identifier, the one just
  programmed (the identifier of \<open>this_cell()\<close>), not those of the identifier the core
  used before. The partition identifier is taken to be the 8-bit field of \<open>VTTBR_EL2\<close>
  at \<open>VTTBR_VMID_SHIFT\<close>, a shift between 32 and 56.
\<close>

theorem activate_order:
  assumes "32 \<le> VTTBR_VMID_SHIFT C" and "VTTBR_VMID_SHIFT C \<le> 56"
  shows "core_trace (arm_mmu_cpu_cell_init pg K C this_cell pg_structs c) =
     core_trace c @
       [EvWriteSysreg VTTBR_EL2 (cell_vttbr pg K C this_cell pg_structs),
        EvWriteSysreg VTCR_EL2 (ucast (VTCR_CELL C)),
        EvIsb,
        EvTlbFlushGuest (ucast (cell_id this_cell)),
        EvDsbNsh]
     \<and> vmid_of C (cell_vttbr pg K C this_cell pg_structs) = ucast (cell_id this_cell)
     \<and> visible_vttbr (arm_mmu_cpu_cell_init pg K C this_cell pg_structs c)
         = cell_vttbr pg K C this_cell pg_structs"
  using assms vmid_of_cell_vttbr [of C pg K this_cell pg_structs]
  by (simp add: arm_mmu_cpu_cell_init_trace arm_mmu_cpu_cell_init_visible)

theorem activate_order_witness:
  "32 \<le> VTTBR_VMID_SHIFT lpae_s2_consts \<and> VTTBR_VMID_SHIFT lpae_s2_consts \<le> 56
   \<and> core_trace (arm_mmu_cpu_cell_init example_ops lpae_paging_consts lpae_s2_consts
        second_cell (arch_mm scenario_mapped_cell) core_before) =
       [EvWriteSysreg VTTBR_EL2 0x000200007C100000,
        EvWriteSysreg VTCR_EL2 0x80003540,
        EvIsb,
        EvTlbFlushGuest 2,
        EvDsbNsh]"
proof -
  have v: "cell_vttbr example_ops lpae_paging_consts lpae_s2_consts second_cell
             (arch_mm scenario_mapped_cell) = 0x000200007C100000"
    by (simp add: cell_vttbr_def lpae_s2_fields lpae_paging_fields example_ops_fields
          scenario_mapped_cell_mm second_cell_def scenario_cell_def)
  show ?thesis
    using activate_order [of lpae_s2_consts example_ops lpae_paging_consts second_cell
        "arch_mm scenario_mapped_cell" core_before]
    by (simp add: lpae_s2_fields v) (simp add: core_before_def second_cell_def)
qed

theorem activate_order_counterexample:
  "vmid_of lpae_s2_consts (visible_vttbr core_before) = 1
   \<and> EvTlbFlushGuest 1 \<notin> set (core_trace (arm_mmu_cpu_cell_init example_ops lpae_paging_consts
          lpae_s2_consts second_cell (arch_mm scenario_mapped_cell) core_before))
   \<and> EvTlbFlushGuest 2 \<in> set (core_trace (arm_mmu_cpu_cell_init example_ops lpae_paging_consts
          lpae_s2_consts second_cell (arch_mm scenario_mapped_cell) core_before))"
proof -
  have v: "vmid_of lpae_s2_consts (cell_vttbr example_ops lpae_paging_consts lpae_s2_consts
             second_cell (arch_mm scenario_mapped_cell)) = 2"
    using vmid_of_cell_vttbr [of lpae_s2_consts example_ops lpae_paging_consts second_cell
        "arch_mm scenario_mapped_cell"]
    by (simp add: lpae_s2_fields second_cell_def)
  show ?thesis
    by (simp add: core_before_vmid arm_mmu_cpu_cell_init_trace v) (simp add: core_before_def)
qed

section \<open>The interrupt doorbell\<close>

text \<open>
  What the doorbell does, for every endpoint: it marks pending, on the lowest CPU of
  the cell that owns the device of the endpoint it was given, the interrupt
  \<open>vpci_irq_base + pin - 1\<close> of that cell and that endpoint's pin, and nothing else
  changes. The \<open>remote\<close> field is never read.
\<close>

lemma doorbell_general:
  "arch_ivshmem_write_doorbell cfg ive w =
     w\<lparr>pending := pending w @
       [(first_cpu_of (cpu_set (cells w (cell (devices w (device (endpoints w ive)))))),
         vpci_irq_base (cells w (cell (devices w (device (endpoints w ive)))))
           + ucast (ucast (drop_bit 8 (cspace (endpoints w ive) (cfg div 4))) :: u8) - 1)]\<rparr>"
  by (simp add: arch_ivshmem_write_doorbell_def Let_def irqchip_set_pending_def)

text \<open>
  C1. A doorbell write does not reach the remote cell. With two connected endpoints, a
  doorbell
  write on endpoint \<open>0\<close> (cell \<open>0\<close>, CPU \<open>0\<close>, base \<open>123\<close>, pin \<open>1\<close>), whose remote
  endpoint \<open>1\<close> belongs to cell \<open>1\<close> (CPU \<open>1\<close>, base \<open>100\<close>, pin \<open>2\<close>), marks interrupt
  \<open>123\<close> pending on CPU \<open>0\<close>, the writer's own cell; the remote cell's target would be
  interrupt \<open>101\<close> on CPU \<open>1\<close>.
\<close>

theorem doorbell_rings_own_cell:
  "pending (arch_ivshmem_write_doorbell 0x3C 0 doorbell_world) = [(0, 123)]
   \<and> remote (endpoints doorbell_world 0) = 1
   \<and> cell (devices doorbell_world (device (endpoints doorbell_world 1))) = 1
   \<and> first_cpu_of (cpu_set (cells doorbell_world 1)) = 1
   \<and> vpci_irq_base (cells doorbell_world 1)
       + ucast (ucast (drop_bit 8 (cspace (endpoints doorbell_world 1) (0x3C div 4))) :: u8) - 1
       = 101"
  by (simp add: doorbell_general doorbell_world_def scenario_cell_def first_cpu_of_def
        drop_bit_eq_div upt_rec)


end
